theory Spec2Isabelle
  imports Complex_Main "HOL-Library.Multiset"
begin

section \<open>Strings as the formatter sees them\<close>

text \<open>
  A string is a list of code units; the model keeps the code units below 256
  (\<^typ>\<open>char\<close>). \<open>String.prototype.trim\<close> removes white space and line
  terminators at both ends; in that range these are TAB, LF, VT, FF, CR, SPACE and NBSP.
  The class \<open>\w\<close> of a regular expression without flags is \<open>[A-Za-z0-9_]\<close>.
\<close>

definition isWhiteSpace :: "char \<Rightarrow> bool" where
  "isWhiteSpace c =
     (c \<in> set [CHR 0x09, CHR 0x0A, CHR 0x0B, CHR 0x0C, CHR 0x0D, CHR 0x20, CHR 0xA0])"

definition isWordChar :: "char \<Rightarrow> bool" where
  "isWordChar c =
     (c \<in> set ''ABCDEFGHIJKLMNOPQRSTUVWXYZabcdefghijklmnopqrstuvwxyz0123456789_'')"

definition trim :: "string \<Rightarrow> string" where
  "trim s = rev (dropWhile isWhiteSpace (rev (dropWhile isWhiteSpace s)))"

definition startsWith :: "string \<Rightarrow> string \<Rightarrow> bool" where
  "startsWith s p = (take (length p) s = p)"

text \<open>The three backticks of a fence.\<close>

definition fence :: string where
  "fence = [CHR 0x60, CHR 0x60, CHR 0x60]"

text \<open>
  One attempt of the regular expression \<^verbatim>\<open>/```(?:[\w]*\n)?/\<close> at the start of \<open>s\<close>:
  \<open>None\<close> when it fails, otherwise the rest of \<open>s\<close> behind the match. The optional
  group is greedy: after the backticks the longest run of word characters is taken, and the
  group matches exactly when a line feed follows that run (a shorter run is followed by a
  word character, so backtracking finds nothing else); otherwise the match is the three
  backticks alone.
\<close>

definition matchFence :: "string \<Rightarrow> string option" where
  "matchFence s =
     (if startsWith s fence then
        (let r = drop 3 s in
         case dropWhile isWordChar r of
           [] \<Rightarrow> Some r
         | c # t \<Rightarrow> if c = CHR 0x0A then Some t else Some r)
      else None)"

lemma matchFence_shorter: "matchFence s = Some r \<Longrightarrow> length r < length s"
proof -
  assume m: "matchFence s = Some r"
  then have sw: "startsWith s fence"
    by (auto simp: matchFence_def split: if_splits)
  then have len: "3 \<le> length s"
    by (metis fence_def length_Cons length_take list.size(3) min.cobounded1
        numeral_3_eq_3 startsWith_def)
  have dw: "length (dropWhile isWordChar (drop 3 s)) \<le> length (drop 3 s)"
    by (rule length_dropWhile_le)
  show ?thesis
  proof (cases "dropWhile isWordChar (drop 3 s)")
    case Nil
    with m sw have "r = drop 3 s" by (simp add: matchFence_def)
    with len show ?thesis by simp
  next
    case (Cons c t)
    with m sw have "r = t \<or> r = drop 3 s"
      by (auto simp: matchFence_def split: if_splits)
    moreover from Cons dw have "length t < length (drop 3 s)" by simp
    ultimately show ?thesis using len by auto
  qed
qed

text \<open>
  \<open>text.split(regex)\<close>: the scan tries the expression at every position from the left;
  a match closes the current part and the scan goes on behind it; the rest of the string
  is the last part. \<open>acc\<close> holds the current part, reversed.
\<close>

function splitFence :: "string \<Rightarrow> string \<Rightarrow> string list" where
  "splitFence acc [] = [rev acc]"
| "splitFence acc (c # cs) =
     (case matchFence (c # cs) of
        Some r \<Rightarrow> rev acc # splitFence [] r
      | None \<Rightarrow> splitFence (c # acc) cs)"
  by pat_completeness auto
termination
  by (relation "measure (\<lambda>(acc, s). length s)") (auto dest: matchFence_shorter)

text \<open>\<open>part.split('\n')\<close>: the pieces between line feeds; the empty string gives one empty piece.\<close>

fun splitLines :: "string \<Rightarrow> string list" where
  "splitLines [] = [[]]"
| "splitLines (c # cs) =
     (if c = CHR 0x0A then [] # splitLines cs
      else (case splitLines cs of
              [] \<Rightarrow> [[c]]
            | p # ps \<Rightarrow> (c # p) # ps))"

section \<open>The segment formatter (\<open>formatOutput\<close> of PromptEnhancer.tsx)\<close>

text \<open>
  The elements that \<open>formatOutput\<close> returns, without their styling: a code block holds
  the trimmed part, a text block holds the array of its paragraphs, where a paragraph that
  is blank is \<open>null\<close> (\<open>None\<close>). The number is the React key, the index of the split part
  the element was made from.
\<close>

datatype segment =
    CodeBlock nat string
  | TextBlock nat "string option list"

fun segKey :: "segment \<Rightarrow> nat" where
  "segKey (CodeBlock k s) = k"
| "segKey (TextBlock k ps) = k"


text \<open>The characters an element shows: \<open>null\<close> paragraphs show nothing.\<close>

fun segContent :: "segment \<Rightarrow> string" where
  "segContent (CodeBlock k s) = s"
| "segContent (TextBlock k ps) = concat (map (\<lambda>p. case p of None \<Rightarrow> [] | Some x \<Rightarrow> x) ps)"

text \<open>The callback of \<open>parts.map\<close>: \<open>None\<close> is the \<open>null\<close> returned for a blank part.\<close>

definition formatPart :: "bool \<Rightarrow> nat \<Rightarrow> string \<Rightarrow> segment option" where
  "formatPart isCodeBlock index part =
     (if trim part = [] then None
      else
        (let isCode = (isCodeBlock \<and> index mod 2 = 1) \<or> (\<not> isCodeBlock \<and> index mod 2 = 0) in
         if isCode then Some (CodeBlock index (trim part))
         else Some (TextBlock index
                (map (\<lambda>paragraph. if trim paragraph \<noteq> [] then Some paragraph else None)
                     (splitLines part)))))"

text \<open>\<open>.filter(Boolean)\<close> on an array of elements and \<open>null\<close>s keeps the elements.\<close>

definition filterBoolean :: "'a option list \<Rightarrow> 'a list" where
  "filterBoolean xs = concat (map (\<lambda>x. case x of None \<Rightarrow> [] | Some y \<Rightarrow> [y]) xs)"

text \<open>\<open>formatOutput\<close>; the result \<open>None\<close> is the \<open>null\<close> returned for the empty string.\<close>

definition formatOutput :: "string \<Rightarrow> segment list option" where
  "formatOutput text =
     (if text = [] then None
      else
        (let parts = splitFence [] text;
             isCodeBlock = startsWith (trim text) fence
         in Some (filterBoolean
              (map (\<lambda>(index, part). formatPart isCodeBlock index part) (enumerate 0 parts)))))"

text \<open>What is rendered: nothing for \<open>null\<close>.\<close>

definition emitted :: "string \<Rightarrow> segment list" where
  "emitted text = (case formatOutput text of None \<Rightarrow> [] | Some segs \<Rightarrow> segs)"

text \<open>The characters of a string that are not white space.\<close>

abbreviation visible :: "string \<Rightarrow> string" where
  "visible s \<equiv> filter (\<lambda>c. \<not> isWhiteSpace c) s"

text \<open>
  The text with every fence marker removed, as \<^verbatim>\<open>text.replace(/```(?:[\w]*\n)?/g, '')\<close>
  computes it: the reference for what the segments have to reconstruct.
\<close>

function stripFences :: "string \<Rightarrow> string" where
  "stripFences [] = []"
| "stripFences (c # cs) =
     (case matchFence (c # cs) of
        Some r \<Rightarrow> stripFences r
      | None \<Rightarrow> c # stripFences cs)"
  by pat_completeness auto
termination
  by (relation "measure length") (auto dest: matchFence_shorter)




section \<open>JavaScript values, exceptions and the chat-completion request\<close>

text \<open>
  A JavaScript value as far as the response handling can observe it: what \<open>JSON.parse\<close>
  builds, and \<open>undefined\<close>. An object is the list of its own properties, each key once.
  A number is written as the real number its literal denotes.
\<close>

datatype js =
    JUndefined
  | JNull
  | JBool bool
  | JNum real
  | JStr string
  | JArr "js list"
  | JObj "(string \<times> js) list"

text \<open>
  A thrown value: an instance of \<open>Error\<close> with its \<open>message\<close>, or anything else, given
  by its conversion \<open>String(error)\<close>.
\<close>

datatype thrown =
    ErrorInstance string
  | OtherThrown string

text \<open>\<^verbatim>\<open>error instanceof Error ? error.message : String(error)\<close>\<close>

definition errorText :: "thrown \<Rightarrow> string" where
  "errorText error = (case error of ErrorInstance message \<Rightarrow> message | OtherThrown s \<Rightarrow> s)"

text \<open>
  \<open>v.name\<close> for a name that no prototype defines (\<open>choices\<close>, \<open>message\<close> and
  \<open>content\<close> are such names): a TypeError on \<open>undefined\<close> and \<open>null\<close>, the own
  property of an object, \<open>undefined\<close> on everything else. The text of the TypeError is the
  engine's; \<open>tmsg\<close> supplies it.
\<close>

definition getMember :: "(js \<Rightarrow> string \<Rightarrow> string) \<Rightarrow> js \<Rightarrow> string \<Rightarrow> thrown + js" where
  "getMember tmsg v name =
     (case v of
        JUndefined \<Rightarrow> Inl (ErrorInstance (tmsg v name))
      | JNull \<Rightarrow> Inl (ErrorInstance (tmsg v name))
      | JObj props \<Rightarrow> Inr (case map_of props name of None \<Rightarrow> JUndefined | Some x \<Rightarrow> x)
      | _ \<Rightarrow> Inr JUndefined)"

text \<open>
  \<open>v[0]\<close>: a TypeError on \<open>undefined\<close> and \<open>null\<close>, the first element of an array, the
  first code unit of a string, the property \<open>"0"\<close> of an object, \<open>undefined\<close> where there
  is none.
\<close>

definition getIndex0 :: "(js \<Rightarrow> string \<Rightarrow> string) \<Rightarrow> js \<Rightarrow> thrown + js" where
  "getIndex0 tmsg v =
     (case v of
        JUndefined \<Rightarrow> Inl (ErrorInstance (tmsg v ''0''))
      | JNull \<Rightarrow> Inl (ErrorInstance (tmsg v ''0''))
      | JArr xs \<Rightarrow> Inr (case xs of [] \<Rightarrow> JUndefined | x # _ \<Rightarrow> x)
      | JStr s \<Rightarrow> Inr (case s of [] \<Rightarrow> JUndefined | c # _ \<Rightarrow> JStr [c])
      | JObj props \<Rightarrow> Inr (case map_of props ''0'' of None \<Rightarrow> JUndefined | Some x \<Rightarrow> x)
      | _ \<Rightarrow> Inr JUndefined)"

definition bindThrown :: "thrown + 'a \<Rightarrow> ('a \<Rightarrow> thrown + 'b) \<Rightarrow> thrown + 'b" where
  "bindThrown r k = (case r of Inl e \<Rightarrow> Inl e | Inr v \<Rightarrow> k v)"

text \<open>\<open>data.choices[0].message.content\<close>\<close>

definition readContent :: "(js \<Rightarrow> string \<Rightarrow> string) \<Rightarrow> js \<Rightarrow> thrown + js" where
  "readContent tmsg data =
     bindThrown (getMember tmsg data ''choices'') (\<lambda>choices.
     bindThrown (getIndex0 tmsg choices) (\<lambda>choice.
     bindThrown (getMember tmsg choice ''message'') (\<lambda>message.
     getMember tmsg message ''content'')))"

text \<open>
  The request handed to \<open>fetch\<close>. The body is the object handed to \<open>JSON.stringify\<close>, with
  its properties in the order of the object literal.
\<close>

record request =
  url :: string
  httpMethod :: string
  headers :: "(string \<times> string) list"
  body :: js

text \<open>
  What \<open>await fetch(...)\<close> followed by \<open>await res.json()\<close> ends in: \<open>fetch\<close> rejects
  (network failure), \<open>res.json()\<close> rejects (the body is not JSON), or the parsed body.
\<close>

datatype response =
    FetchRejected thrown
  | JsonRejected thrown
  | JsonBody js

record env =
  fetch :: "request \<Rightarrow> response"
  typeErrorMessage :: "js \<Rightarrow> string \<Rightarrow> string"

definition awaitJson :: "response \<Rightarrow> thrown + js" where
  "awaitJson r = (case r of FetchRejected e \<Rightarrow> Inl e | JsonRejected e \<Rightarrow> Inl e | JsonBody data \<Rightarrow> Inr data)"

definition messages :: "string \<Rightarrow> string \<Rightarrow> js" where
  "messages systemPrompt userPrompt =
     JArr [JObj [(''role'', JStr ''system''), (''content'', JStr systemPrompt)],
           JObj [(''role'', JStr ''user''), (''content'', JStr userPrompt)]]"

definition postJson :: "string \<Rightarrow> js \<Rightarrow> request" where
  "postJson apiEndpoint obj =
     \<lparr>url = apiEndpoint @ ''/v1/chat/completions'',
      httpMethod = ''POST'',
      headers = [(''Content-Type'', ''application/json'')],
      body = obj\<rparr>"

section \<open>Handlers as actions on a world\<close>

text \<open>A call of one of the parent's callbacks.\<close>

datatype callback =
    SetLoading bool
  | OnResult js

text \<open>
  The world of a handler: the state of its component, the requests sent so far and the
  callbacks called so far. An action changes the world and completes (\<open>None\<close>) or
  throws; what was changed before a throw stays changed.
\<close>

record 'c world =
  component :: 'c
  sent :: "request list"
  calls :: "callback list"

type_synonym 'c action = "'c world \<Rightarrow> thrown option \<times> 'c world"

definition perform :: "('c world \<Rightarrow> 'c world) \<Rightarrow> 'c action" where
  "perform f w = (None, f w)"

definition andThen :: "'c action \<Rightarrow> 'c action \<Rightarrow> 'c action" where
  "andThen a b w = (case a w of (None, w1) \<Rightarrow> b w1 | (Some e, w1) \<Rightarrow> (Some e, w1))"

text \<open>\<open>try { body } catch (error) { handler } finally { fin }\<close>\<close>

definition tryCatchFinally :: "'c action \<Rightarrow> (thrown \<Rightarrow> 'c action) \<Rightarrow> 'c action \<Rightarrow> 'c action" where
  "tryCatchFinally tryBody handler fin w =
     (let (r1, w1) = tryBody w;
          (r2, w2) = (case r1 of None \<Rightarrow> (None, w1) | Some error \<Rightarrow> handler error w1);
          (r3, w3) = fin w2
      in (case r3 of Some e \<Rightarrow> (Some e, w3) | None \<Rightarrow> (r2, w3)))"

text \<open>
  \<open>const res = await fetch(...); const data = await res.json();\<close> followed by the
  evaluation of \<open>data.choices[0].message.content\<close>: the value, or what was thrown on
  the way.
\<close>

definition chatOutcome :: "env \<Rightarrow> request \<Rightarrow> thrown + js" where
  "chatOutcome e req = bindThrown (awaitJson (fetch e req)) (readContent (typeErrorMessage e))"

text \<open>The request is sent, and \<open>use\<close> receives the content if there is one.\<close>

definition fetchContent :: "env \<Rightarrow> request \<Rightarrow> (js \<Rightarrow> 'c world \<Rightarrow> 'c world) \<Rightarrow> 'c action" where
  "fetchContent e req use w =
     (let w1 = w\<lparr>sent := sent w @ [req]\<rparr> in
      case chatOutcome e req of
        Inl error \<Rightarrow> (Some error, w1)
      | Inr content \<Rightarrow> (None, use content w1))"

section \<open>App.tsx: generation after an enhancement\<close>

record app_state =
  app_showSettings :: bool
  app_apiEndpoint :: string
  app_darkMode :: bool
  app_loading :: bool
  app_result :: js

definition initialApp :: app_state where
  "initialApp =
     \<lparr>app_showSettings = False,
      app_apiEndpoint = ''http://localhost:1234'',
      app_darkMode = True,
      app_loading = False,
      app_result = JStr ''''\<rparr>"

definition setLoading :: "bool \<Rightarrow> app_state world \<Rightarrow> app_state world" where
  "setLoading b w = w\<lparr>component := (component w)\<lparr>app_loading := b\<rparr>\<rparr>"

definition setResult :: "js \<Rightarrow> app_state world \<Rightarrow> app_state world" where
  "setResult v w = w\<lparr>component := (component w)\<lparr>app_result := v\<rparr>\<rparr>"

text \<open>
  The object literal that \<open>handleEnhancedPrompt\<close> and \<open>enhancePrompt\<close> hand to
  \<open>JSON.stringify\<close>: model, temperature and \<open>max_tokens\<close> are constants there.
\<close>

definition generationBody :: "string \<Rightarrow> string \<Rightarrow> js" where
  "generationBody systemPrompt userPrompt =
     JObj [(''model'', JStr ''mistral-nemo-instruct-2407''),
           (''messages'', messages systemPrompt userPrompt),
           (''temperature'', JNum 0.7),
           (''max_tokens'', JNum (- 1))]"

definition handleEnhancedPrompt :: "env \<Rightarrow> string \<Rightarrow> string \<Rightarrow> app_state action" where
  "handleEnhancedPrompt e systemPrompt userPrompt w =
     tryCatchFinally
       (andThen (perform (setLoading True))
       (andThen (perform (setResult (JStr '''')))
         (fetchContent e
            (postJson (app_apiEndpoint (component w)) (generationBody systemPrompt userPrompt))
            setResult)))
       (\<lambda>error. perform (setResult (JStr (''Error: '' @ errorText error))))
       (perform (setLoading False))
       w"

section \<open>PromptForm.tsx: direct submission and the presets\<close>

record model_preset =
  preset_id :: string
  preset_name :: string
  preset_model :: string
  preset_systemPrompt :: string
  preset_temperature :: real
  preset_maxTokens :: int

definition DEFAULT_PRESETS :: "model_preset list" where
  "DEFAULT_PRESETS =
     [\<lparr>preset_id = ''1'',
       preset_name = ''Rhyming Assistant'',
       preset_model = ''mistral-nemo-instruct-2407'',
       preset_systemPrompt = ''Always answer in rhymes. Today is Thursday'',
       preset_temperature = 0.7,
       preset_maxTokens = - 1\<rparr>,
      \<lparr>preset_id = ''2'',
       preset_name = ''Helpful Assistant'',
       preset_model = ''mistral-nemo-instruct-2407'',
       preset_systemPrompt = ''You are a helpful, harmless, and honest AI assistant.'',
       preset_temperature = 0.7,
       preset_maxTokens = - 1\<rparr>,
      \<lparr>preset_id = ''3'',
       preset_name = ''Precise Analyst'',
       preset_model = ''mistral-nemo-instruct-2407'',
       preset_systemPrompt =
         ''You are a precise, analytical assistant that provides factual, well-reasoned responses.'',
       preset_temperature = 0.3,
       preset_maxTokens = - 1\<rparr>]"

record form_state =
  form_systemPrompt :: string
  form_userPrompt :: string
  form_temperature :: real
  form_model :: string
  form_maxTokens :: int
  form_stream :: bool
  form_presets :: "model_preset list"
  form_showPresets :: bool
  form_newPresetName :: string
  form_activePreset :: "string option"
  form_showAdvanced :: bool

definition initialForm :: form_state where
  "initialForm =
     \<lparr>form_systemPrompt = ''Always answer in rhymes. Today is Thursday'',
      form_userPrompt = ''What day is it today?'',
      form_temperature = 0.7,
      form_model = ''mistral-nemo-instruct-2407'',
      form_maxTokens = - 1,
      form_stream = False,
      form_presets = DEFAULT_PRESETS,
      form_showPresets = False,
      form_newPresetName = '''',
      form_activePreset = None,
      form_showAdvanced = False\<rparr>"

definition call :: "callback \<Rightarrow> 'c world \<Rightarrow> 'c world" where
  "call c w = w\<lparr>calls := calls w @ [c]\<rparr>"

definition submitBody :: "form_state \<Rightarrow> js" where
  "submitBody st =
     JObj [(''model'', JStr (form_model st)),
           (''messages'', messages (form_systemPrompt st) (form_userPrompt st)),
           (''temperature'', JNum (form_temperature st)),
           (''max_tokens'', JNum (of_int (form_maxTokens st))),
           (''stream'', JBool (form_stream st))]"

text \<open>\<open>handleSubmit\<close>; \<open>setLoading\<close> and \<open>onResult\<close> are the parent's callbacks.\<close>

definition handleSubmit :: "env \<Rightarrow> string \<Rightarrow> form_state action" where
  "handleSubmit e apiEndpoint w =
     andThen (perform (call (SetLoading True)))
       (tryCatchFinally
          (fetchContent e (postJson apiEndpoint (submitBody (component w))) (\<lambda>v. call (OnResult v)))
          (\<lambda>error. perform (call (OnResult (JStr (''Error: '' @ errorText error)))))
          (perform (call (SetLoading False))))
       w"

section \<open>PromptEnhancer.tsx: the enhancement request and the library\<close>

record enhanced_prompt =
  ep_id :: string
  ep_originalPrompt :: string
  ep_enhancedPrompt :: js
  ep_systemPrompt :: string
  ep_category :: string
  ep_createdAt :: int
  ep_favorite :: bool

definition PROMPT_CATEGORIES :: "string list" where
  "PROMPT_CATEGORIES =
     [''General'', ''Creative Writing'', ''Business'', ''Web Development'', ''Marketing'',
      ''Academic'', ''Coding'', ''Data Analysis'']"

definition ENHANCEMENT_SYSTEM_PROMPT :: string where
  "ENHANCEMENT_SYSTEM_PROMPT =
     ''You are an expert prompt engineer. Your task is to enhance the user'' @ [CHR 0x27] @
     ''s basic prompt into a more detailed, effective prompt that will produce better results.'' @
     [CHR 0x0A, CHR 0x0A] @
     ''Follow these guidelines to improve the user'' @ [CHR 0x27] @ ''s prompt:'' @ [CHR 0x0A] @
     ''1. Add specific details and context that seem appropriate'' @ [CHR 0x0A] @
     ''2. Include clear instructions on tone, format, and style'' @ [CHR 0x0A] @
     ''3. Break complex requests into structured parts'' @ [CHR 0x0A] @
     ''4. Add constraints and specific requirements'' @ [CHR 0x0A] @
     ''5. Avoid making the prompt too verbose or repetitive'' @ [CHR 0x0A, CHR 0x0A] @
     ''Return ONLY the enhanced prompt without any explanations or additional text. '' @
     ''The enhanced prompt should be professional and ready to be used directly.''"

record enhancer_state =
  enh_basePrompt :: string
  enh_enhancedPrompt :: js
  enh_isEnhancing :: bool
  enh_selectedCategory :: string
  enh_filterCategory :: string
  enh_savedPrompts :: "enhanced_prompt list"
  enh_showSaved :: bool
  enh_showResult :: bool

definition initialEnhancer :: enhancer_state where
  "initialEnhancer =
     \<lparr>enh_basePrompt = '''',
      enh_enhancedPrompt = JStr '''',
      enh_isEnhancing = False,
      enh_selectedCategory = ''General'',
      enh_filterCategory = ''All'',
      enh_savedPrompts = [],
      enh_showSaved = False,
      enh_showResult = False\<rparr>"

definition setIsEnhancing :: "bool \<Rightarrow> enhancer_state world \<Rightarrow> enhancer_state world" where
  "setIsEnhancing b w = w\<lparr>component := (component w)\<lparr>enh_isEnhancing := b\<rparr>\<rparr>"

definition setEnhancedPrompt :: "js \<Rightarrow> enhancer_state world \<Rightarrow> enhancer_state world" where
  "setEnhancedPrompt v w = w\<lparr>component := (component w)\<lparr>enh_enhancedPrompt := v\<rparr>\<rparr>"

text \<open>
  \<open>onSetLoadingState\<close> is an optional property: \<open>hasHandler\<close> says whether the parent
  passed it. With it the parent's flag is set, without it the component's own.
\<close>

definition announceLoading :: "bool \<Rightarrow> bool \<Rightarrow> enhancer_state world \<Rightarrow> enhancer_state world" where
  "announceLoading hasHandler b w =
     (if hasHandler then call (SetLoading b) w else setIsEnhancing b w)"

definition enhancePrompt :: "env \<Rightarrow> string \<Rightarrow> bool \<Rightarrow> enhancer_state action" where
  "enhancePrompt e apiEndpoint hasHandler w =
     (if trim (enh_basePrompt (component w)) = [] then (None, w)
      else
        andThen (perform (announceLoading hasHandler True))
       (andThen (perform (setEnhancedPrompt (JStr '''')))
         (tryCatchFinally
            (fetchContent e
               (postJson apiEndpoint
                  (generationBody ENHANCEMENT_SYSTEM_PROMPT (enh_basePrompt (component w))))
               setEnhancedPrompt)
            (\<lambda>error. perform
               (setEnhancedPrompt (JStr (''Error enhancing prompt: '' @ errorText error))))
            (perform (announceLoading hasHandler False))))
         w)"

section \<open>The persisted collections\<close>

text \<open>
  \<open>localStorage\<close> maps keys to strings; \<open>getItem\<close> of a missing key is \<open>null\<close>
  (\<open>None\<close>).
\<close>

type_synonym localStorage = "string \<Rightarrow> string option"

text \<open>
  \<open>JSON.stringify\<close> and \<open>JSON.parse\<close> on a collection belong to the platform and are
  parameters of the model; \<open>parse\<close> gives \<open>None\<close> where \<open>JSON.parse\<close> throws. The
  collections keep the types of their TypeScript declarations, so a stored text that
  parses to something else than a collection of that shape is outside the model. A
  \<open>createdAt\<close> is the instant in milliseconds, which \<open>new Date(x).getTime()\<close> reads both
  from the \<open>Date\<close> of a new record and from the string a reloaded record holds.
\<close>

record 'a json =
  stringify :: "'a \<Rightarrow> string"
  parse :: "string \<Rightarrow> 'a option"

subsection \<open>The library of enhanced prompts\<close>

text \<open>
  The first effect of \<open>PromptEnhancer\<close>, run once after mounting: the state after it and
  the lines written by \<open>console.error\<close>. \<open>if (savedData)\<close> is false for \<open>null\<close> and for
  the empty string.
\<close>

definition loadEnhancedPrompts ::
  "enhanced_prompt list json \<Rightarrow> localStorage \<Rightarrow> enhancer_state \<Rightarrow> enhancer_state \<times> string list" where
  "loadEnhancedPrompts J ls st =
     (case ls ''enhancedPrompts'' of
        None \<Rightarrow> (st, [])
      | Some savedData \<Rightarrow>
          if savedData = [] then (st, [])
          else (case parse J savedData of
                  Some v \<Rightarrow> (st\<lparr>enh_savedPrompts := v\<rparr>, [])
                | None \<Rightarrow> (st, [''Failed to load saved enhanced prompts:''])))"

definition mountEnhancer ::
  "enhanced_prompt list json \<Rightarrow> localStorage \<Rightarrow> enhancer_state \<times> string list" where
  "mountEnhancer J ls = loadEnhancedPrompts J ls initialEnhancer"

definition saveToLocalStorage ::
  "enhanced_prompt list json \<Rightarrow> enhanced_prompt list \<Rightarrow> localStorage \<Rightarrow> localStorage" where
  "saveToLocalStorage J prompts ls = ls(''enhancedPrompts'' \<mapsto> stringify J prompts)"

text \<open>\<open>!v\<close>\<close>

definition isFalsy :: "js \<Rightarrow> bool" where
  "isFalsy v =
     (case v of
        JUndefined \<Rightarrow> True
      | JNull \<Rightarrow> True
      | JBool b \<Rightarrow> \<not> b
      | JNum n \<Rightarrow> n = 0
      | JStr s \<Rightarrow> s = []
      | _ \<Rightarrow> False)"

text \<open>
  \<open>saveEnhancedPrompt\<close>; \<open>uuid\<close> is what \<open>crypto.randomUUID()\<close> returns and \<open>now\<close> what
  \<open>new Date()\<close> reads.
\<close>

definition saveEnhancedPrompt ::
  "enhanced_prompt list json \<Rightarrow> string \<Rightarrow> int \<Rightarrow> enhancer_state \<times> localStorage
     \<Rightarrow> enhancer_state \<times> localStorage" where
  "saveEnhancedPrompt J uuid now = (\<lambda>(st, ls).
     if isFalsy (enh_enhancedPrompt st) then (st, ls)
     else
       (let newPrompt =
              \<lparr>ep_id = uuid,
               ep_originalPrompt = enh_basePrompt st,
               ep_enhancedPrompt = enh_enhancedPrompt st,
               ep_systemPrompt = ENHANCEMENT_SYSTEM_PROMPT,
               ep_category = enh_selectedCategory st,
               ep_createdAt = now,
               ep_favorite = False\<rparr>;
            updated = enh_savedPrompts st @ [newPrompt]
        in (st\<lparr>enh_savedPrompts := updated\<rparr>, saveToLocalStorage J updated ls)))"

definition toggleFavorite ::
  "enhanced_prompt list json \<Rightarrow> string \<Rightarrow> enhancer_state \<times> localStorage
     \<Rightarrow> enhancer_state \<times> localStorage" where
  "toggleFavorite J i = (\<lambda>(st, ls).
     let updated = map (\<lambda>p. if ep_id p = i then p\<lparr>ep_favorite := \<not> ep_favorite p\<rparr> else p)
                       (enh_savedPrompts st)
     in (st\<lparr>enh_savedPrompts := updated\<rparr>, saveToLocalStorage J updated ls))"

definition deletePrompt ::
  "enhanced_prompt list json \<Rightarrow> string \<Rightarrow> enhancer_state \<times> localStorage
     \<Rightarrow> enhancer_state \<times> localStorage" where
  "deletePrompt J i = (\<lambda>(st, ls).
     let updated = filter (\<lambda>p. ep_id p \<noteq> i) (enh_savedPrompts st)
     in (st\<lparr>enh_savedPrompts := updated\<rparr>, saveToLocalStorage J updated ls))"

subsection \<open>The presets\<close>

text \<open>
  The first effect of \<open>PromptForm\<close>: the argument of \<open>setPresets\<close>, if it is called, and
  the lines written by \<open>console.error\<close>.
\<close>

definition loadPresets ::
  "model_preset list json \<Rightarrow> localStorage \<Rightarrow> model_preset list option \<times> string list" where
  "loadPresets J ls =
     (case ls ''promptPresets'' of
        None \<Rightarrow> (None, [])
      | Some savedPresets \<Rightarrow>
          if savedPresets = [] then (None, [])
          else (case parse J savedPresets of
                  Some v \<Rightarrow> (Some v, [])
                | None \<Rightarrow> (None, [''Failed to load presets:''])))"

text \<open>The second effect, run after every render in which \<open>presets\<close> has changed.\<close>

definition persistPresets ::
  "model_preset list json \<Rightarrow> form_state \<Rightarrow> localStorage \<Rightarrow> localStorage" where
  "persistPresets J st ls = ls(''promptPresets'' \<mapsto> stringify J (form_presets st))"

text \<open>
  Mounting \<open>PromptForm\<close>: both effects run after the first render, the second one with
  the presets of that render; when the first effect has called \<open>setPresets\<close>, the
  component renders again and the second effect runs again.
\<close>

definition mountPromptForm ::
  "model_preset list json \<Rightarrow> localStorage \<Rightarrow> form_state \<times> localStorage \<times> string list" where
  "mountPromptForm J ls =
     (let (loaded, logged) = loadPresets J ls;
          ls1 = persistPresets J initialForm ls
      in case loaded of
           None \<Rightarrow> (initialForm, ls1, logged)
         | Some v \<Rightarrow>
             (let st = initialForm\<lparr>form_presets := v\<rparr>
              in (st, persistPresets J st ls1, logged)))"

definition saveCurrentAsPreset ::
  "model_preset list json \<Rightarrow> string \<Rightarrow> form_state \<times> localStorage \<Rightarrow> form_state \<times> localStorage" where
  "saveCurrentAsPreset J uuid = (\<lambda>(st, ls).
     if trim (form_newPresetName st) = [] then (st, ls)
     else
       (let newPreset =
              \<lparr>preset_id = uuid,
               preset_name = form_newPresetName st,
               preset_model = form_model st,
               preset_systemPrompt = form_systemPrompt st,
               preset_temperature = form_temperature st,
               preset_maxTokens = form_maxTokens st\<rparr>;
            st' = st\<lparr>form_presets := form_presets st @ [newPreset],
                     form_newPresetName := '''',
                     form_activePreset := Some (preset_id newPreset)\<rparr>
        in (st', persistPresets J st' ls)))"

definition deletePreset ::
  "model_preset list json \<Rightarrow> string \<Rightarrow> form_state \<times> localStorage \<Rightarrow> form_state \<times> localStorage" where
  "deletePreset J i = (\<lambda>(st, ls).
     let st' = st\<lparr>form_presets := filter (\<lambda>p. preset_id p \<noteq> i) (form_presets st),
                  form_activePreset :=
                    (if form_activePreset st = Some i then None else form_activePreset st)\<rparr>
     in (st', persistPresets J st' ls))"

section \<open>The library view\<close>

text \<open>
  \<open>Array.prototype.sort\<close> with a comparison function is stable: elements that compare
  equal keep their order. Insertion from the right, each element in front of the first
  one it does not have to follow, is such a sort.
\<close>

fun insertBy :: "('a \<Rightarrow> 'a \<Rightarrow> int) \<Rightarrow> 'a \<Rightarrow> 'a list \<Rightarrow> 'a list" where
  "insertBy cmp x [] = [x]"
| "insertBy cmp x (y # ys) = (if cmp x y \<le> 0 then x # y # ys else y # insertBy cmp x ys)"

definition sortBy :: "('a \<Rightarrow> 'a \<Rightarrow> int) \<Rightarrow> 'a list \<Rightarrow> 'a list" where
  "sortBy cmp xs = foldr (insertBy cmp) xs []"

text \<open>A list of records is newest first when every record is at least as new as those behind it.\<close>

abbreviation newestFirst :: "enhanced_prompt list \<Rightarrow> bool" where
  "newestFirst \<equiv> sorted_wrt (\<lambda>a b. ep_createdAt b \<le> ep_createdAt a)"

text \<open>
  Arrays are objects: \<open>filter\<close> allocates a new array and \<open>sort\<close> sorts the array it is
  called on in place. The store is the list of all arrays; a reference is an index into
  it.
\<close>

type_synonym 'a arrays = "'a list list"

definition arrayFilter :: "('a \<Rightarrow> bool) \<Rightarrow> nat \<Rightarrow> 'a arrays \<Rightarrow> nat \<times> 'a arrays" where
  "arrayFilter P r h = (length h, h @ [filter P (h ! r)])"

definition arraySort :: "('a \<Rightarrow> 'a \<Rightarrow> int) \<Rightarrow> nat \<Rightarrow> 'a arrays \<Rightarrow> nat \<times> 'a arrays" where
  "arraySort cmp r h = (r, h[r := sortBy cmp (h ! r)])"

text \<open>\<^verbatim>\<open>p => filterCategory === 'All' || p.category === filterCategory\<close>\<close>

definition matchesFilter :: "string \<Rightarrow> enhanced_prompt \<Rightarrow> bool" where
  "matchesFilter filterCategory p = (filterCategory = ''All'' \<or> ep_category p = filterCategory)"

text \<open>\<^verbatim>\<open>(a, b) => new Date(b.createdAt).getTime() - new Date(a.createdAt).getTime()\<close>\<close>

definition byCreatedAtDesc :: "enhanced_prompt \<Rightarrow> enhanced_prompt \<Rightarrow> int" where
  "byCreatedAtDesc a b = ep_createdAt b - ep_createdAt a"

text \<open>
  \<open>savedPrompts.filter(...).sort(...)\<close>, where \<open>r\<close> refers to \<open>savedPrompts\<close>: the
  reference to the array that is rendered, and the store afterwards.
\<close>

definition libraryView ::
  "string \<Rightarrow> nat \<Rightarrow> enhanced_prompt arrays \<Rightarrow> nat \<times> enhanced_prompt arrays" where
  "libraryView filterCategory r h =
     (let (r1, h1) = arrayFilter (matchesFilter filterCategory) r h
      in arraySort byCreatedAtDesc r1 h1)"

text \<open>The records rendered for a state: its \<open>savedPrompts\<close> is the only array there.\<close>

definition shownPrompts :: "enhancer_state \<Rightarrow> enhanced_prompt list" where
  "shownPrompts st =
     (let (r, h) = libraryView (enh_filterCategory st) 0 [enh_savedPrompts st] in h ! r)"

section \<open>Assumptions on the platform, and stand-ins for evaluation\<close>

text \<open>
  What a restart needs from \<open>JSON\<close> for one collection: the text written for it is not
  empty and parses back to it.
\<close>

definition roundTrips :: "'a json \<Rightarrow> 'a \<Rightarrow> bool" where
  "roundTrips J v = (stringify J v \<noteq> [] \<and> parse J (stringify J v) = Some v)"

text \<open>
  A finite stand-in for \<open>JSON\<close>, given by a table of texts and the collections they
  denote; every other text is rejected, and a collection outside the table is written as
  \<open>null\<close>.
\<close>

definition tableJson :: "(string \<times> 'a) list \<Rightarrow> 'a json" where
  "tableJson table =
     \<lparr>stringify = (\<lambda>v. case find (\<lambda>(s, x). x = v) table of
                           None \<Rightarrow> ''null''
                         | Some (s, x) \<Rightarrow> s),
      parse = map_of table\<rparr>"

text \<open>A network that is down, and a service that answers with a message without content.\<close>

definition offline :: env where
  "offline =
     \<lparr>fetch = (\<lambda>req. FetchRejected (ErrorInstance ''Failed to fetch'')),
      typeErrorMessage = (\<lambda>v name. ''Cannot read properties'')\<rparr>"

definition noContent :: env where
  "noContent =
     \<lparr>fetch = (\<lambda>req. JsonBody (JObj [(''choices'', JArr [JObj [(''message'', JObj [])]])])),
      typeErrorMessage = (\<lambda>v name. ''Cannot read properties'')\<rparr>"

text \<open>Sample states and records for evaluation.\<close>

definition sampleEnhancer :: enhancer_state where
  "sampleEnhancer = initialEnhancer\<lparr>enh_basePrompt := ''hi'', enh_enhancedPrompt := JStr ''Hello''\<rparr>"

definition sampleForm :: form_state where
  "sampleForm = initialForm\<lparr>form_newPresetName := ''Mine''\<rparr>"

definition samplePrompt :: "string \<Rightarrow> string \<Rightarrow> int \<Rightarrow> enhanced_prompt" where
  "samplePrompt i c t =
     \<lparr>ep_id = i, ep_originalPrompt = ''hi'', ep_enhancedPrompt = JStr ''Hello'',
      ep_systemPrompt = ENHANCEMENT_SYSTEM_PROMPT, ep_category = c, ep_createdAt = t,
      ep_favorite = False\<rparr>"

definition samplePreset :: "string \<Rightarrow> model_preset" where
  "samplePreset i =
     \<lparr>preset_id = i, preset_name = ''Mine'', preset_model = ''mistral-nemo-instruct-2407'',
      preset_systemPrompt = ''Always answer in rhymes. Today is Thursday'',
      preset_temperature = 0.7, preset_maxTokens = - 1\<rparr>"

section \<open>Facts about trimming, lines and the split\<close>

lemma trim_empty_iff: "trim s = [] \<longleftrightarrow> (\<forall>c \<in> set s. isWhiteSpace c)"
proof
  assume "trim s = []"
  then have a: "\<forall>c \<in> set (dropWhile isWhiteSpace s). isWhiteSpace c"
    by (simp add: trim_def dropWhile_eq_Nil_conv)
  have "dropWhile isWhiteSpace s = []"
  proof (cases "dropWhile isWhiteSpace s")
    case Nil then show ?thesis .
  next
    case (Cons c t)
    then have "\<not> isWhiteSpace c" by (metis hd_dropWhile list.sel(1) list.distinct(1))
    with a Cons show ?thesis by simp
  qed
  then show "\<forall>c \<in> set s. isWhiteSpace c" by (simp add: dropWhile_eq_Nil_conv)
next
  assume "\<forall>c \<in> set s. isWhiteSpace c"
  then have d: "dropWhile isWhiteSpace s = []" by (simp add: dropWhile_eq_Nil_conv)
  show "trim s = []" by (simp only: trim_def d rev.simps dropWhile.simps)
qed

lemma visible_dropWhile: "visible (dropWhile isWhiteSpace s) = visible s"
  by (induction s) auto

lemma visible_trim: "visible (trim s) = visible s"
proof -
  have "visible (trim s) = rev (visible (dropWhile isWhiteSpace (rev (dropWhile isWhiteSpace s))))"
    by (simp add: trim_def rev_filter)
  also have "\<dots> = rev (visible (rev (dropWhile isWhiteSpace s)))"
    by (simp only: visible_dropWhile)
  also have "\<dots> = visible s"
    by (simp add: rev_filter [symmetric] visible_dropWhile)
  finally show ?thesis .
qed

lemma visible_empty_iff: "visible s = [] \<longleftrightarrow> trim s = []"
  by (simp add: trim_empty_iff filter_empty_conv)

lemma splitLines_nonempty: "splitLines s \<noteq> []"
  by (induction s) (auto split: list.splits)

lemma concat_splitLines: "concat (splitLines s) = filter (\<lambda>c. c \<noteq> CHR 0x0A) s"
  by (induction s) (auto split: list.splits)

lemma visible_splitLines: "visible (concat (splitLines s)) = visible s"
proof -
  have "visible (filter (\<lambda>c. c \<noteq> CHR 0x0A) s) = visible s"
    by (induction s) (auto simp: isWhiteSpace_def)
  then show ?thesis by (simp only: concat_splitLines)
qed

lemma visible_paragraphs:
  "visible (concat (map ((\<lambda>p. case p of None \<Rightarrow> [] | Some x \<Rightarrow> x) \<circ>
      (\<lambda>paragraph. if trim paragraph \<noteq> [] then Some paragraph else None)) ls))
   = visible (concat ls)"
proof (induction ls)
  case Nil then show ?case by simp
next
  case (Cons l ls)
  have "trim l = [] \<Longrightarrow> visible l = []" by (simp add: visible_empty_iff)
  with Cons show ?case by auto
qed

lemma concat_splitFence: "concat (splitFence acc s) = rev acc @ stripFences s"
  by (induction acc s rule: splitFence.induct) (auto split: option.splits)







lemma filterBoolean_map:
  "filterBoolean (map g xs) = map (\<lambda>x. the (g x)) (filter (\<lambda>x. g x \<noteq> None) xs)"
  by (induction xs) (auto simp: filterBoolean_def)

lemma map_enumerate_nth:
  "map (\<lambda>(i, p). f i p) (enumerate 0 ps) = map (\<lambda>i. f i (ps ! i)) [0..<length ps]"
  by (rule nth_equalityI) (simp_all add: nth_enumerate_eq)

lemma emitted_eq:
  "emitted text =
     map (\<lambda>i. the (formatPart (startsWith (trim text) fence) i (splitFence [] text ! i)))
       (filter (\<lambda>i. trim (splitFence [] text ! i) \<noteq> []) [0..<length (splitFence [] text)])"
proof (cases "text = []")
  case True
  then show ?thesis by (simp add: emitted_def formatOutput_def trim_def)
next
  case False
  have "\<And>b i p. (formatPart b i p \<noteq> None) = (trim p \<noteq> [])"
    by (simp add: formatPart_def Let_def)
  with False show ?thesis
    by (simp add: emitted_def formatOutput_def Let_def map_enumerate_nth filterBoolean_map)
qed

lemma formatPart_Some:
  "trim p \<noteq> [] \<Longrightarrow>
   the (formatPart b i p) =
     (if (if b then odd i else even i) then CodeBlock i (trim p)
      else TextBlock i (map (\<lambda>l. if trim l \<noteq> [] then Some l else None) (splitLines p)))"
  by (simp add: formatPart_def Let_def odd_iff_mod_2_eq_one even_iff_mod_2_eq_zero)

lemma emitted_keys:
  "map segKey (emitted text) =
     filter (\<lambda>i. trim (splitFence [] text ! i) \<noteq> []) [0..<length (splitFence [] text)]"
proof -
  have "map (\<lambda>i. segKey (the (formatPart b i (ps ! i)))) (filter (\<lambda>i. trim (ps ! i) \<noteq> []) js)
        = filter (\<lambda>i. trim (ps ! i) \<noteq> []) js" for b ps js
    by (induction js) (auto simp: formatPart_Some)
  then show ?thesis by (simp add: emitted_eq o_def)
qed


lemma visible_segContent:
  "trim p \<noteq> [] \<Longrightarrow> visible (segContent (the (formatPart b i p))) = visible p"
  by (simp add: formatPart_Some visible_trim visible_paragraphs visible_splitLines)

lemma visible_concat_filter:
  "(\<forall>i \<in> set js. Q i \<longrightarrow> visible (h i) = visible (g i)) \<Longrightarrow>
   (\<forall>i \<in> set js. \<not> Q i \<longrightarrow> visible (g i) = []) \<Longrightarrow>
   visible (concat (map h (filter Q js))) = visible (concat (map g js))"
  by (induction js) auto

lemma visible_emitted:
  "visible (concat (map segContent (emitted text))) = visible (stripFences text)"
proof -
  let ?ps = "splitFence [] text"
  let ?b = "startsWith (trim text) fence"
  have "visible (concat (map (\<lambda>i. segContent (the (formatPart ?b i (?ps ! i))))
           (filter (\<lambda>i. trim (?ps ! i) \<noteq> []) [0..<length ?ps])))
        = visible (concat (map (\<lambda>i. ?ps ! i) [0..<length ?ps]))"
    by (rule visible_concat_filter) (simp_all add: visible_segContent visible_empty_iff)
  also have "map (\<lambda>i. ?ps ! i) [0..<length ?ps] = ?ps" by (rule map_nth)
  also have "concat ?ps = stripFences text" by (simp add: concat_splitFence)
  finally show ?thesis by (simp add: emitted_eq o_def)
qed

lemma emitted_nonblank:
  assumes "seg \<in> set (emitted text)"
  shows "trim (segContent seg) \<noteq> []"
proof -
  from assms obtain i where i: "trim (splitFence [] text ! i) \<noteq> []"
      "seg = the (formatPart (startsWith (trim text) fence) i (splitFence [] text ! i))"
    by (auto simp: emitted_eq)
  then have "visible (segContent seg) = visible (splitFence [] text ! i)"
    by (simp add: visible_segContent)
  with i(1) show ?thesis by (simp add: visible_empty_iff [symmetric])
qed

lemmas eval_defs = emitted_def formatOutput_def fence_def startsWith_def trim_def isWhiteSpace_def
  matchFence_def isWordChar_def formatPart_def filterBoolean_def enumerate_eq_zip

section \<open>The segment formatter: claims C3, C4 and C5\<close>



text \<open>
  Claim C4 says that the text \<open>a\<close>, line feed, \<^verbatim>\<open>```code```\<close>, line feed, \<open>b\<close>
  gives the segments text \<open>a\<close>, code \<open>code\<close>, text \<open>b\<close>. The text does not start with a
  fence, so \<open>formatOutput\<close> takes the parts at even indices for code: what lies between
  the fences is rendered as text and what lies around them as code.
\<close>

theorem formatOutput_parity_inverted:
  "emitted (''a'' @ [CHR 0x0A] @ ''```code```'' @ [CHR 0x0A] @ ''b'') =
     [CodeBlock 0 ''a'', TextBlock 1 [Some ''code''], CodeBlock 2 ''b'']"
  by (simp add: eval_defs)

text \<open>
  Claim C5. For every input text, the contents of the emitted segments, concatenated, hold
  the characters of the text that are not white space, without those of the fence markers,
  in their order; no emitted segment has an empty (or blank) content, because exactly the
  parts that are empty or blank are dropped.
\<close>

theorem formatOutput_reconstructs:
  "filter (\<lambda>c. \<not> isWhiteSpace c) (concat (map segContent (emitted text)))
     = filter (\<lambda>c. \<not> isWhiteSpace c) (stripFences text)
   \<and> (\<forall>seg \<in> set (emitted text). segContent seg \<noteq> [] \<and> trim (segContent seg) \<noteq> [])
   \<and> map segKey (emitted text) =
       filter (\<lambda>i. trim (splitFence [] text ! i) \<noteq> []) [0..<length (splitFence [] text)]"
proof (intro conjI ballI)
  show "visible (concat (map segContent (emitted text))) = visible (stripFences text)"
    by (rule visible_emitted)
next
  fix seg assume s: "seg \<in> set (emitted text)"
  from emitted_nonblank [OF s] show "trim (segContent seg) \<noteq> []" .
  then show "segContent seg \<noteq> []" by (auto simp: trim_def)
next
  show "map segKey (emitted text) =
       filter (\<lambda>i. trim (splitFence [] text ! i) \<noteq> []) [0..<length (splitFence [] text)]"
    by (rule emitted_keys)
qed

text \<open>For the input of claim C3 the segments show \<open>x\<close> and \<open>tail\<close>.\<close>

theorem formatOutput_reconstructs_witness:
  "CodeBlock 1 ''x'' \<in> set (emitted (''```x```'' @ [CHR 0x0A] @ ''tail'')) \<and>
   segContent (CodeBlock 1 ''x'') \<noteq> [] \<and>
   concat (map segContent (emitted (''```x```'' @ [CHR 0x0A] @ ''tail''))) = ''xtail'' \<and>
   stripFences (''```x```'' @ [CHR 0x0A] @ ''tail'') = ''xtail''"
  using formatOutput_reconstructs [of "''```x```'' @ [CHR 0x0A] @ ''tail''"]
  by (simp add: eval_defs)

section \<open>The chat-completion calls: claims C1 and C2\<close>

lemmas action_defs = tryCatchFinally_def andThen_def perform_def fetchContent_def

lemmas chat_eval = chatOutcome_def awaitJson_def bindThrown_def readContent_def getMember_def
  getIndex0_def errorText_def

text \<open>Reading a property throws on \<open>undefined\<close> and \<open>null\<close> only, and throws a TypeError.\<close>

lemma getMember_throws:
  "getMember tmsg v name = Inl x \<Longrightarrow> (v = JUndefined \<or> v = JNull) \<and> x = ErrorInstance (tmsg v name)"
  by (cases v) (simp_all add: getMember_def)

lemma getIndex0_throws:
  "getIndex0 tmsg v = Inl x \<Longrightarrow> (v = JUndefined \<or> v = JNull) \<and> x = ErrorInstance (tmsg v ''0'')"
  by (cases v) (simp_all add: getIndex0_def)

lemma readContent_throws:
  "readContent tmsg data = Inl x \<Longrightarrow>
   \<exists>v name. (v = JUndefined \<or> v = JNull) \<and> x = ErrorInstance (tmsg v name)"
  unfolding readContent_def bindThrown_def
  by (auto split: sum.splits dest!: getMember_throws getIndex0_throws)

lemma readContent_object:
  "readContent tmsg (JObj [(''choices'', JArr [JObj [(''message'', JObj props)]])]) =
     Inr (case map_of props ''content'' of None \<Rightarrow> JUndefined | Some c \<Rightarrow> c)"
  by (simp add: readContent_def bindThrown_def getMember_def getIndex0_def)

text \<open>What each handler leaves behind, in one equation.\<close>

lemma handleEnhancedPrompt_run:
  "handleEnhancedPrompt e systemPrompt userPrompt w =
     (None, w\<lparr>component := (component w)\<lparr>app_loading := False,
                 app_result := (case chatOutcome e (postJson (app_apiEndpoint (component w))
                                   (generationBody systemPrompt userPrompt)) of
                                  Inl error \<Rightarrow> JStr (''Error: '' @ errorText error)
                                | Inr c \<Rightarrow> c)\<rparr>,
              sent := sent w @ [postJson (app_apiEndpoint (component w))
                                   (generationBody systemPrompt userPrompt)]\<rparr>)"
  by (cases "chatOutcome e (postJson (app_apiEndpoint (component w)) (generationBody systemPrompt userPrompt))")
     (simp_all add: handleEnhancedPrompt_def action_defs setLoading_def setResult_def Let_def)

lemma handleSubmit_run:
  "handleSubmit e apiEndpoint w =
     (None, w\<lparr>sent := sent w @ [postJson apiEndpoint (submitBody (component w))],
              calls := calls w @
                [SetLoading True,
                 OnResult (case chatOutcome e (postJson apiEndpoint (submitBody (component w))) of
                             Inl error \<Rightarrow> JStr (''Error: '' @ errorText error)
                           | Inr c \<Rightarrow> c),
                 SetLoading False]\<rparr>)"
  by (cases "chatOutcome e (postJson apiEndpoint (submitBody (component w)))")
     (simp_all add: handleSubmit_def action_defs call_def Let_def)

lemma enhancePrompt_run:
  "trim (enh_basePrompt (component w)) \<noteq> [] \<Longrightarrow>
   enhancePrompt e apiEndpoint hasHandler w =
     (None, w\<lparr>component := (component w)\<lparr>
                 enh_isEnhancing := (if hasHandler then enh_isEnhancing (component w) else False),
                 enh_enhancedPrompt :=
                   (case chatOutcome e (postJson apiEndpoint
                           (generationBody ENHANCEMENT_SYSTEM_PROMPT (enh_basePrompt (component w)))) of
                      Inl error \<Rightarrow> JStr (''Error enhancing prompt: '' @ errorText error)
                    | Inr c \<Rightarrow> c)\<rparr>,
              sent := sent w @ [postJson apiEndpoint
                           (generationBody ENHANCEMENT_SYSTEM_PROMPT (enh_basePrompt (component w)))],
              calls := calls w @ (if hasHandler then [SetLoading True, SetLoading False] else [])\<rparr>)"
  by (cases "chatOutcome e (postJson apiEndpoint
                           (generationBody ENHANCEMENT_SYSTEM_PROMPT (enh_basePrompt (component w))))")
     (simp_all add: enhancePrompt_def action_defs call_def Let_def announceLoading_def
        setIsEnhancing_def setEnhancedPrompt_def)

lemma enhancePrompt_blank:
  "trim (enh_basePrompt (component w)) = [] \<Longrightarrow> enhancePrompt e apiEndpoint hasHandler w = (None, w)"
  by (simp add: enhancePrompt_def)

lemma chatOutcome_Inl_iff:
  "chatOutcome e req = Inl x \<longleftrightarrow>
     fetch e req = FetchRejected x \<or> fetch e req = JsonRejected x \<or>
     (\<exists>data. fetch e req = JsonBody data \<and> readContent (typeErrorMessage e) data = Inl x)"
  by (cases "fetch e req") (simp_all add: chatOutcome_def awaitJson_def bindThrown_def)

text \<open>
  Claim C1, as the code has it. At each of the three call sites the operation completes and
  never throws. Whenever \<open>fetch\<close> rejects, the body is not JSON, or reading
  \<open>data.choices[0].message.content\<close> throws, the value surfaced is a text: \<open>Error: \<close>
  followed by the message at the direct submission and at the generation after an
  enhancement, and \<open>Error enhancing prompt: \<close> followed by the message at the enhancement
  request (which is sent only for a prompt that is not blank). Reading the content
  throws only a TypeError, on \<open>undefined\<close> or \<open>null\<close>. When nothing throws, the value
  surfaced is whatever \<open>content\<close> holds: \<open>undefined\<close> for a message without it.
\<close>

theorem chat_failure_is_caught:
  "(fst (handleSubmit e apiEndpoint wForm) = None \<and>
    calls (snd (handleSubmit e apiEndpoint wForm)) = calls wForm @
      [SetLoading True,
       OnResult (case chatOutcome e (postJson apiEndpoint (submitBody (component wForm))) of
                   Inl error \<Rightarrow> JStr (''Error: '' @ errorText error)
                 | Inr content \<Rightarrow> content),
       SetLoading False])
   \<and> (fst (handleEnhancedPrompt e systemPrompt userPrompt wApp) = None \<and>
    app_result (component (snd (handleEnhancedPrompt e systemPrompt userPrompt wApp))) =
      (case chatOutcome e (postJson (app_apiEndpoint (component wApp))
                             (generationBody systemPrompt userPrompt)) of
         Inl error \<Rightarrow> JStr (''Error: '' @ errorText error)
       | Inr content \<Rightarrow> content))
   \<and> (fst (enhancePrompt e apiEndpoint hasHandler wEnh) = None \<and>
    (trim (enh_basePrompt (component wEnh)) \<noteq> [] \<longrightarrow>
     enh_enhancedPrompt (component (snd (enhancePrompt e apiEndpoint hasHandler wEnh))) =
      (case chatOutcome e (postJson apiEndpoint
              (generationBody ENHANCEMENT_SYSTEM_PROMPT (enh_basePrompt (component wEnh)))) of
         Inl error \<Rightarrow> JStr (''Error enhancing prompt: '' @ errorText error)
       | Inr content \<Rightarrow> content)))
   \<and> (chatOutcome e req = Inl x \<longleftrightarrow>
        fetch e req = FetchRejected x \<or> fetch e req = JsonRejected x \<or>
        (\<exists>data. fetch e req = JsonBody data \<and> readContent (typeErrorMessage e) data = Inl x))
   \<and> (readContent tmsg data = Inl y \<longrightarrow>
        (\<exists>v name. (v = JUndefined \<or> v = JNull) \<and> y = ErrorInstance (tmsg v name)))
   \<and> readContent tmsg (JObj [(''choices'', JArr [JObj [(''message'', JObj props)]])]) =
        Inr (case map_of props ''content'' of None \<Rightarrow> JUndefined | Some c \<Rightarrow> c)"
proof (intro conjI impI)
  show "fst (enhancePrompt e apiEndpoint hasHandler wEnh) = None"
    by (cases "trim (enh_basePrompt (component wEnh)) = []")
       (simp_all add: enhancePrompt_run enhancePrompt_blank)
next
  assume "readContent tmsg data = Inl y"
  then show "\<exists>v name. (v = JUndefined \<or> v = JNull) \<and> y = ErrorInstance (tmsg v name)"
    by (rule readContent_throws)
next
  show "readContent tmsg (JObj [(''choices'', JArr [JObj [(''message'', JObj props)]])]) =
        Inr (case map_of props ''content'' of None \<Rightarrow> JUndefined | Some c \<Rightarrow> c)"
    by (rule readContent_object)
qed (simp_all add: handleSubmit_run handleEnhancedPrompt_run enhancePrompt_run chatOutcome_Inl_iff)

text \<open>With the network down, both prefixes appear.\<close>

theorem chat_failure_is_caught_witness:
  "trim (enh_basePrompt (initialEnhancer\<lparr>enh_basePrompt := ''hi''\<rparr>)) \<noteq> [] \<and>
   fetch offline (postJson ''http://localhost:1234'' (generationBody ENHANCEMENT_SYSTEM_PROMPT ''hi''))
     = FetchRejected (ErrorInstance ''Failed to fetch'') \<and>
   enh_enhancedPrompt (component (snd (enhancePrompt offline ''http://localhost:1234'' True
       \<lparr>component = initialEnhancer\<lparr>enh_basePrompt := ''hi''\<rparr>, sent = [], calls = []\<rparr>)))
     = JStr ''Error enhancing prompt: Failed to fetch'' \<and>
   calls (snd (handleSubmit offline ''http://localhost:1234''
       \<lparr>component = initialForm, sent = [], calls = []\<rparr>))
     = [SetLoading True, OnResult (JStr ''Error: Failed to fetch''), SetLoading False] \<and>
   readContent (typeErrorMessage offline) JNull = Inl (ErrorInstance ''Cannot read properties'')"
  using chat_failure_is_caught [of offline "''http://localhost:1234''"
      "\<lparr>component = initialForm, sent = [], calls = []\<rparr>" "''s''" "''u''"
      "\<lparr>component = initialApp, sent = [], calls = []\<rparr>" True
      "\<lparr>component = initialEnhancer\<lparr>enh_basePrompt := ''hi''\<rparr>, sent = [], calls = []\<rparr>"
      "postJson ''http://localhost:1234'' (generationBody ENHANCEMENT_SYSTEM_PROMPT ''hi'')"
      "ErrorInstance ''Failed to fetch''" "typeErrorMessage offline" JNull
      "ErrorInstance ''Cannot read properties''" "[]"]
  by (simp add: offline_def initialEnhancer_def trim_def isWhiteSpace_def chat_eval)

text \<open>
  Claim C1 as stated fails twice: the enhancement request surfaces a failure under another
  prefix than \<open>Error: \<close>, and a response whose message has no \<open>content\<close> throws
  nothing, so that \<open>undefined\<close> is surfaced instead of an error text.
\<close>

theorem chat_error_form_counterexample:
  "enh_enhancedPrompt (component (snd (enhancePrompt offline ''http://localhost:1234'' True
       \<lparr>component = initialEnhancer\<lparr>enh_basePrompt := ''hi''\<rparr>, sent = [], calls = []\<rparr>)))
     = JStr ''Error enhancing prompt: Failed to fetch'' \<and>
   JStr ''Error enhancing prompt: Failed to fetch'' \<noteq> JStr (''Error: '' @ ''Failed to fetch'') \<and>
   app_result (component (snd (handleEnhancedPrompt noContent ''s'' ''u''
       \<lparr>component = initialApp, sent = [], calls = []\<rparr>))) = JUndefined"
  by (simp add: enhancePrompt_run handleEnhancedPrompt_run offline_def noContent_def
      initialEnhancer_def trim_def isWhiteSpace_def chat_eval)

text \<open>
  Claim C2, as the code has it. The direct submission sends exactly one POST to
  \<open>{baseUrl}/v1/chat/completions\<close> whose body has exactly the fields \<open>model\<close>,
  \<open>messages\<close> (the system and the user message), \<open>temperature\<close>, \<open>max_tokens\<close> and
  \<open>stream\<close>, taken from the inputs; \<open>maxTokens = -1\<close> is sent as \<open>-1\<close>. The generation
  after an enhancement and the enhancement request send exactly one POST to the same path
  (the enhancement request none for a blank prompt) whose body has the four fields
  \<open>model\<close>, \<open>messages\<close>, \<open>temperature\<close> and \<open>max_tokens\<close> with the constants
  \<open>mistral-nemo-instruct-2407\<close>, \<open>0.7\<close> and \<open>-1\<close>, and no \<open>stream\<close>.
\<close>

theorem chat_request_shape:
  "sent (snd (handleSubmit e apiEndpoint wForm)) = sent wForm @
     [\<lparr>url = apiEndpoint @ ''/v1/chat/completions'',
       httpMethod = ''POST'',
       headers = [(''Content-Type'', ''application/json'')],
       body = JObj [(''model'', JStr (form_model (component wForm))),
                    (''messages'',
                       JArr [JObj [(''role'', JStr ''system''),
                                   (''content'', JStr (form_systemPrompt (component wForm)))],
                             JObj [(''role'', JStr ''user''),
                                   (''content'', JStr (form_userPrompt (component wForm)))]]),
                    (''temperature'', JNum (form_temperature (component wForm))),
                    (''max_tokens'', JNum (of_int (form_maxTokens (component wForm)))),
                    (''stream'', JBool (form_stream (component wForm)))]\<rparr>]
   \<and> (form_maxTokens (component wForm) = - 1 \<longrightarrow>
        (\<exists>props. body (last (sent (snd (handleSubmit e apiEndpoint wForm)))) = JObj props \<and>
                 map_of props ''max_tokens'' = Some (JNum (- 1))))
   \<and> sent (snd (handleEnhancedPrompt e systemPrompt userPrompt wApp)) = sent wApp @
     [\<lparr>url = app_apiEndpoint (component wApp) @ ''/v1/chat/completions'',
       httpMethod = ''POST'',
       headers = [(''Content-Type'', ''application/json'')],
       body = JObj [(''model'', JStr ''mistral-nemo-instruct-2407''),
                    (''messages'',
                       JArr [JObj [(''role'', JStr ''system''), (''content'', JStr systemPrompt)],
                             JObj [(''role'', JStr ''user''), (''content'', JStr userPrompt)]]),
                    (''temperature'', JNum 0.7),
                    (''max_tokens'', JNum (- 1))]\<rparr>]
   \<and> sent (snd (enhancePrompt e apiEndpoint hasHandler wEnh)) =
       (if trim (enh_basePrompt (component wEnh)) = [] then sent wEnh
        else sent wEnh @
     [\<lparr>url = apiEndpoint @ ''/v1/chat/completions'',
       httpMethod = ''POST'',
       headers = [(''Content-Type'', ''application/json'')],
       body = JObj [(''model'', JStr ''mistral-nemo-instruct-2407''),
                    (''messages'',
                       JArr [JObj [(''role'', JStr ''system''),
                                   (''content'', JStr ENHANCEMENT_SYSTEM_PROMPT)],
                             JObj [(''role'', JStr ''user''),
                                   (''content'', JStr (enh_basePrompt (component wEnh)))]]),
                    (''temperature'', JNum 0.7),
                    (''max_tokens'', JNum (- 1))]\<rparr>])"
  by (simp add: handleSubmit_run handleEnhancedPrompt_run enhancePrompt_run enhancePrompt_blank
      postJson_def submitBody_def generationBody_def messages_def)

text \<open>The body sent for the initial form, where \<open>maxTokens\<close> is \<open>-1\<close>.\<close>

theorem chat_request_shape_witness:
  "form_maxTokens initialForm = - 1 \<and>
   trim (enh_basePrompt (initialEnhancer\<lparr>enh_basePrompt := ''hi''\<rparr>)) \<noteq> [] \<and>
   map body (sent (snd (handleSubmit offline ''http://localhost:1234''
       \<lparr>component = initialForm, sent = [], calls = []\<rparr>))) =
     [JObj [(''model'', JStr ''mistral-nemo-instruct-2407''),
            (''messages'',
               JArr [JObj [(''role'', JStr ''system''),
                           (''content'', JStr ''Always answer in rhymes. Today is Thursday'')],
                     JObj [(''role'', JStr ''user''),
                           (''content'', JStr ''What day is it today?'')]]),
            (''temperature'', JNum 0.7),
            (''max_tokens'', JNum (- 1)),
            (''stream'', JBool False)]] \<and>
   length (sent (snd (enhancePrompt offline ''http://localhost:1234'' True
       \<lparr>component = initialEnhancer\<lparr>enh_basePrompt := ''hi''\<rparr>, sent = [], calls = []\<rparr>))) = 1"
  using chat_request_shape [of offline "''http://localhost:1234''"
      "\<lparr>component = initialForm, sent = [], calls = []\<rparr>" "''s''" "''u''"
      "\<lparr>component = initialApp, sent = [], calls = []\<rparr>" True
      "\<lparr>component = initialEnhancer\<lparr>enh_basePrompt := ''hi''\<rparr>, sent = [], calls = []\<rparr>"]
  by (simp add: initialForm_def initialEnhancer_def trim_def isWhiteSpace_def)

text \<open>
  Claim C2 as stated fails at the generation after an enhancement: its body has four
  fields, and \<open>stream\<close> is not among them.
\<close>

theorem chat_request_stream_counterexample:
  "(\<exists>props. map body (sent (snd (handleEnhancedPrompt offline ''s'' ''u''
        \<lparr>component = initialApp, sent = [], calls = []\<rparr>))) = [JObj props] \<and>
      map fst props = [''model'', ''messages'', ''temperature'', ''max_tokens''] \<and>
      map_of props ''stream'' = None)"
  by (simp add: handleEnhancedPrompt_run postJson_def generationBody_def)

section \<open>The library view: claim C9\<close>

lemma mset_insertBy: "mset (insertBy cmp x ys) = add_mset x (mset ys)"
  by (induction ys) auto

lemma mset_sortBy: "mset (sortBy cmp xs) = mset xs"
  by (induction xs) (auto simp: sortBy_def mset_insertBy)

lemma set_insertBy: "set (insertBy cmp x ys) = insert x (set ys)"
  by (induction ys) auto

lemma newestFirst_insertBy:
  "newestFirst ys \<Longrightarrow> newestFirst (insertBy byCreatedAtDesc x ys)"
  by (induction ys) (auto simp: set_insertBy byCreatedAtDesc_def)

lemma newestFirst_sortBy: "newestFirst (sortBy byCreatedAtDesc xs)"
  by (induction xs) (auto simp: sortBy_def newestFirst_insertBy)

lemma filter_insertBy:
  "filter (\<lambda>p. ep_createdAt p = t) (insertBy byCreatedAtDesc x ys) =
     (if ep_createdAt x = t then x # filter (\<lambda>p. ep_createdAt p = t) ys
      else filter (\<lambda>p. ep_createdAt p = t) ys)"
  by (induction ys) (auto simp: byCreatedAtDesc_def)

lemma filter_sortBy:
  "filter (\<lambda>p. ep_createdAt p = t) (sortBy byCreatedAtDesc xs) = filter (\<lambda>p. ep_createdAt p = t) xs"
  by (induction xs) (auto simp: sortBy_def filter_insertBy)

lemma libraryView_run:
  "libraryView fc r h =
     (length h, h @ [sortBy byCreatedAtDesc (filter (matchesFilter fc) (h ! r))])"
  by (simp add: libraryView_def arrayFilter_def arraySort_def)

lemma shownPrompts_eq:
  "shownPrompts st =
     sortBy byCreatedAtDesc (filter (matchesFilter (enh_filterCategory st)) (enh_savedPrompts st))"
  by (simp add: shownPrompts_def libraryView_run)

text \<open>
  Claim C9. The view keeps the records whose category equals the filter (all of them for
  the filter \<open>All\<close>) and sorts them by \<open>createdAt\<close>, newest first, records of the same
  instant staying in their stored order. It does so in a new array: no array that existed
  before, the stored collection among them, is changed. Records created at
  \<open>t1 < t2 < t3\<close> are shown in the order \<open>t3, t2, t1\<close>, and the filter \<open>Coding\<close> over
  records of the categories General, Coding, Coding shows exactly the two Coding records,
  in the order the sort gives them.
\<close>

theorem libraryView_filters_then_sorts:
  "(r < length h \<longrightarrow>
      fst (libraryView fc r h) = length h \<and>
      length (snd (libraryView fc r h)) = Suc (length h) \<and>
      (\<forall>a < length h. snd (libraryView fc r h) ! a = h ! a) \<and>
      mset (snd (libraryView fc r h) ! fst (libraryView fc r h)) =
        mset (filter (\<lambda>p. fc = ''All'' \<or> ep_category p = fc) (h ! r)) \<and>
      sorted_wrt (\<lambda>a b. ep_createdAt b \<le> ep_createdAt a)
        (snd (libraryView fc r h) ! fst (libraryView fc r h)) \<and>
      (\<forall>t. filter (\<lambda>p. ep_createdAt p = t) (snd (libraryView fc r h) ! fst (libraryView fc r h)) =
           filter (\<lambda>p. ep_createdAt p = t)
             (filter (\<lambda>p. fc = ''All'' \<or> ep_category p = fc) (h ! r))))
   \<and> (ep_createdAt p1 < ep_createdAt p2 \<and> ep_createdAt p2 < ep_createdAt p3 \<longrightarrow>
        shownPrompts (st\<lparr>enh_savedPrompts := [p1, p2, p3], enh_filterCategory := ''All''\<rparr>)
          = [p3, p2, p1])
   \<and> (ep_category g = ''General'' \<and> ep_category c1 = ''Coding'' \<and> ep_category c2 = ''Coding'' \<longrightarrow>
        shownPrompts (st\<lparr>enh_savedPrompts := [g, c1, c2], enh_filterCategory := ''Coding''\<rparr>)
          = sortBy byCreatedAtDesc [c1, c2] \<and>
        mset (shownPrompts (st\<lparr>enh_savedPrompts := [g, c1, c2], enh_filterCategory := ''Coding''\<rparr>))
          = {#c1, c2#})"
proof (intro conjI impI allI)
  show "mset (snd (libraryView fc r h) ! fst (libraryView fc r h)) =
        mset (filter (\<lambda>p. fc = ''All'' \<or> ep_category p = fc) (h ! r))"
    by (simp add: libraryView_run mset_sortBy matchesFilter_def)
next
  show "sorted_wrt (\<lambda>a b. ep_createdAt b \<le> ep_createdAt a)
        (snd (libraryView fc r h) ! fst (libraryView fc r h))"
    by (simp add: libraryView_run newestFirst_sortBy)
next
  fix t
  show "filter (\<lambda>p. ep_createdAt p = t) (snd (libraryView fc r h) ! fst (libraryView fc r h)) =
           filter (\<lambda>p. ep_createdAt p = t)
             (filter (\<lambda>p. fc = ''All'' \<or> ep_category p = fc) (h ! r))"
    by (simp add: libraryView_run filter_sortBy matchesFilter_def)
next
  fix a assume "a < length h"
  then show "snd (libraryView fc r h) ! a = h ! a"
    by (simp add: libraryView_run nth_append)
next
  assume "ep_createdAt p1 < ep_createdAt p2 \<and> ep_createdAt p2 < ep_createdAt p3"
  then show "shownPrompts (st\<lparr>enh_savedPrompts := [p1, p2, p3], enh_filterCategory := ''All''\<rparr>)
          = [p3, p2, p1]"
    by (simp add: shownPrompts_eq matchesFilter_def sortBy_def byCreatedAtDesc_def)
next
  assume c: "ep_category g = ''General'' \<and> ep_category c1 = ''Coding'' \<and> ep_category c2 = ''Coding''"
  then show "shownPrompts (st\<lparr>enh_savedPrompts := [g, c1, c2], enh_filterCategory := ''Coding''\<rparr>)
          = sortBy byCreatedAtDesc [c1, c2]"
    by (simp add: shownPrompts_eq matchesFilter_def)
  from c show "mset (shownPrompts (st\<lparr>enh_savedPrompts := [g, c1, c2], enh_filterCategory := ''Coding''\<rparr>))
          = {#c1, c2#}"
    by (simp add: shownPrompts_eq matchesFilter_def mset_sortBy)
qed (simp_all add: libraryView_run)

text \<open>Three records at the instants 1, 2 and 3, under both filters.\<close>

theorem libraryView_filters_then_sorts_witness:
  "(0::nat) < length [[samplePrompt ''g'' ''General'' 1, samplePrompt ''c1'' ''Coding'' 2,
                      samplePrompt ''c2'' ''Coding'' 3]] \<and>
   ep_createdAt (samplePrompt ''g'' ''General'' 1) < ep_createdAt (samplePrompt ''c1'' ''Coding'' 2) \<and>
   ep_createdAt (samplePrompt ''c1'' ''Coding'' 2) < ep_createdAt (samplePrompt ''c2'' ''Coding'' 3) \<and>
   ep_category (samplePrompt ''g'' ''General'' 1) = ''General'' \<and>
   ep_category (samplePrompt ''c1'' ''Coding'' 2) = ''Coding'' \<and>
   ep_category (samplePrompt ''c2'' ''Coding'' 3) = ''Coding'' \<and>
   shownPrompts (initialEnhancer\<lparr>enh_savedPrompts :=
       [samplePrompt ''g'' ''General'' 1, samplePrompt ''c1'' ''Coding'' 2,
        samplePrompt ''c2'' ''Coding'' 3], enh_filterCategory := ''All''\<rparr>)
     = [samplePrompt ''c2'' ''Coding'' 3, samplePrompt ''c1'' ''Coding'' 2,
        samplePrompt ''g'' ''General'' 1] \<and>
   shownPrompts (initialEnhancer\<lparr>enh_savedPrompts :=
       [samplePrompt ''g'' ''General'' 1, samplePrompt ''c1'' ''Coding'' 2,
        samplePrompt ''c2'' ''Coding'' 3], enh_filterCategory := ''Coding''\<rparr>)
     = [samplePrompt ''c2'' ''Coding'' 3, samplePrompt ''c1'' ''Coding'' 2] \<and>
   snd (libraryView ''Coding'' 0 [[samplePrompt ''g'' ''General'' 1, samplePrompt ''c1'' ''Coding'' 2,
                      samplePrompt ''c2'' ''Coding'' 3]]) ! 0
     = [samplePrompt ''g'' ''General'' 1, samplePrompt ''c1'' ''Coding'' 2,
        samplePrompt ''c2'' ''Coding'' 3]"
  using libraryView_filters_then_sorts
    [of 0 "[[samplePrompt ''g'' ''General'' 1, samplePrompt ''c1'' ''Coding'' 2,
             samplePrompt ''c2'' ''Coding'' 3]]" "''Coding''"
        "samplePrompt ''g'' ''General'' 1" "samplePrompt ''c1'' ''Coding'' 2"
        "samplePrompt ''c2'' ''Coding'' 3" initialEnhancer
        "samplePrompt ''g'' ''General'' 1" "samplePrompt ''c1'' ''Coding'' 2"
        "samplePrompt ''c2'' ''Coding'' 3"]
  by (simp add: samplePrompt_def sortBy_def byCreatedAtDesc_def)

section \<open>The persisted collections: claims C6, C7, C8 and C10\<close>

lemmas table_eval = tableJson_def roundTrips_def

text \<open>A restart finds what was written, provided the platform reads it back.\<close>

lemma mountEnhancer_roundTrips:
  "roundTrips J xs \<Longrightarrow> ls ''enhancedPrompts'' = Some (stringify J xs) \<Longrightarrow>
   mountEnhancer J ls = (initialEnhancer\<lparr>enh_savedPrompts := xs\<rparr>, [])"
  by (simp add: mountEnhancer_def loadEnhancedPrompts_def roundTrips_def)

lemma mountPromptForm_roundTrips:
  "roundTrips J xs \<Longrightarrow> ls ''promptPresets'' = Some (stringify J xs) \<Longrightarrow>
   mountPromptForm J ls =
     (initialForm\<lparr>form_presets := xs\<rparr>, ls(''promptPresets'' \<mapsto> stringify J xs), [])"
  by (simp add: mountPromptForm_def loadPresets_def roundTrips_def persistPresets_def)

text \<open>
  Claim C6, as the code has it. For each collection, loading with no value under its key
  gives the default (the three seed presets; the empty library) and logs nothing; loading a
  stored text that is not empty and that \<open>JSON.parse\<close> rejects logs one diagnostic and
  leaves the default; a stored empty text is treated like a missing value: the default, and
  nothing logged.
\<close>

theorem load_defaults:
  "(ls ''enhancedPrompts'' = None \<longrightarrow>
      mountEnhancer J ls = (initialEnhancer, []) \<and> enh_savedPrompts initialEnhancer = [])
   \<and> (ls ''enhancedPrompts'' = Some s \<and> s \<noteq> [] \<and> parse J s = None \<longrightarrow>
      mountEnhancer J ls = (initialEnhancer, [''Failed to load saved enhanced prompts:'']))
   \<and> (ls ''enhancedPrompts'' = Some [] \<longrightarrow> mountEnhancer J ls = (initialEnhancer, []))
   \<and> (ls ''promptPresets'' = None \<longrightarrow>
      fst (mountPromptForm Jp ls) = initialForm \<and> snd (snd (mountPromptForm Jp ls)) = [] \<and>
      form_presets initialForm = DEFAULT_PRESETS \<and> DEFAULT_PRESETS \<noteq> [])
   \<and> (ls ''promptPresets'' = Some s \<and> s \<noteq> [] \<and> parse Jp s = None \<longrightarrow>
      fst (mountPromptForm Jp ls) = initialForm \<and>
      snd (snd (mountPromptForm Jp ls)) = [''Failed to load presets:''])
   \<and> (ls ''promptPresets'' = Some [] \<longrightarrow>
      fst (mountPromptForm Jp ls) = initialForm \<and> snd (snd (mountPromptForm Jp ls)) = [])"
  by (simp add: mountEnhancer_def loadEnhancedPrompts_def mountPromptForm_def loadPresets_def
      initialEnhancer_def initialForm_def DEFAULT_PRESETS_def)

text \<open>A truncated text under either key.\<close>

theorem load_defaults_witness:
  "parse (tableJson [(''[]'', [])]) ''[{'' = None \<and>
   mountEnhancer (tableJson [(''[]'', [])]) [''enhancedPrompts'' \<mapsto> ''[{'']
     = (initialEnhancer, [''Failed to load saved enhanced prompts:'']) \<and>
   mountEnhancer (tableJson [(''[]'', [])]) Map.empty = (initialEnhancer, []) \<and>
   form_presets (fst (mountPromptForm (tableJson [(''[]'', [])]) [''promptPresets'' \<mapsto> ''[{'']))
     = DEFAULT_PRESETS \<and>
   snd (snd (mountPromptForm (tableJson [(''[]'', [])]) [''promptPresets'' \<mapsto> ''[{'']))
     = [''Failed to load presets:'']"
  using load_defaults [of "[''enhancedPrompts'' \<mapsto> ''[{'']" "tableJson [(''[]'', [])]" "''[{''"
                          "tableJson [(''[]'', [])]"]
        load_defaults [of "Map.empty" "tableJson [(''[]'', [])]" "''[{''" "tableJson [(''[]'', [])]"]
        load_defaults [of "[''promptPresets'' \<mapsto> ''[{'']" "tableJson [(''[]'', [])]" "''[{''"
                          "tableJson [(''[]'', [])]"]
  by (simp add: tableJson_def)

text \<open>
  Claim C6 as stated fails for the empty text: it cannot be parsed, and yet loading it logs
  nothing.
\<close>

theorem load_empty_text_counterexample:
  "parse (tableJson [(''[]'', [])]) '''' = (None :: enhanced_prompt list option) \<and>
   mountEnhancer (tableJson [(''[]'', [])]) [''enhancedPrompts'' \<mapsto> ''''] = (initialEnhancer, [])"
  by (simp add: tableJson_def mountEnhancer_def loadEnhancedPrompts_def)

text \<open>
  Claim C7, as the code has it. For every prior collection state, adding (with the content
  that the operation requires: an enhanced prompt that is not falsy, a preset name that is
  not blank) appends exactly one record at the end, whose id is the value that
  \<open>crypto.randomUUID()\<close> returned and whose other fields are taken from the current
  inputs, and writes the new collection to the storage; a restart, given that the platform
  reads the written text back, loads exactly the new collection: the records that were
  there, unchanged, followed by the new one with all its fields. The generated id is not
  compared with the ids in the collection: the ids of the loaded collection are pairwise
  distinct exactly when they were before and the generated id is not among them.
\<close>

theorem add_appends_and_survives_restart:
  "(\<not> isFalsy (enh_enhancedPrompt st) \<and>
    roundTrips J (enh_savedPrompts st @
       [\<lparr>ep_id = uuid, ep_originalPrompt = enh_basePrompt st,
         ep_enhancedPrompt = enh_enhancedPrompt st, ep_systemPrompt = ENHANCEMENT_SYSTEM_PROMPT,
         ep_category = enh_selectedCategory st, ep_createdAt = now, ep_favorite = False\<rparr>]) \<longrightarrow>
      fst (saveEnhancedPrompt J uuid now (st, ls)) =
        st\<lparr>enh_savedPrompts := enh_savedPrompts st @
          [\<lparr>ep_id = uuid, ep_originalPrompt = enh_basePrompt st,
            ep_enhancedPrompt = enh_enhancedPrompt st, ep_systemPrompt = ENHANCEMENT_SYSTEM_PROMPT,
            ep_category = enh_selectedCategory st, ep_createdAt = now, ep_favorite = False\<rparr>]\<rparr> \<and>
      snd (saveEnhancedPrompt J uuid now (st, ls)) ''enhancedPrompts'' =
        Some (stringify J (enh_savedPrompts (fst (saveEnhancedPrompt J uuid now (st, ls))))) \<and>
      enh_savedPrompts (fst (mountEnhancer J (snd (saveEnhancedPrompt J uuid now (st, ls))))) =
        enh_savedPrompts st @
          [\<lparr>ep_id = uuid, ep_originalPrompt = enh_basePrompt st,
            ep_enhancedPrompt = enh_enhancedPrompt st, ep_systemPrompt = ENHANCEMENT_SYSTEM_PROMPT,
            ep_category = enh_selectedCategory st, ep_createdAt = now, ep_favorite = False\<rparr>] \<and>
      (distinct (map ep_id
           (enh_savedPrompts (fst (mountEnhancer J (snd (saveEnhancedPrompt J uuid now (st, ls)))))))
       \<longleftrightarrow> distinct (map ep_id (enh_savedPrompts st)) \<and> uuid \<notin> ep_id ` set (enh_savedPrompts st)))
   \<and> (trim (form_newPresetName fs) \<noteq> [] \<and>
       roundTrips Jp (form_presets fs @
          [\<lparr>preset_id = uuid, preset_name = form_newPresetName fs, preset_model = form_model fs,
            preset_systemPrompt = form_systemPrompt fs, preset_temperature = form_temperature fs,
            preset_maxTokens = form_maxTokens fs\<rparr>]) \<longrightarrow>
      fst (saveCurrentAsPreset Jp uuid (fs, ls)) =
        fs\<lparr>form_presets := form_presets fs @
          [\<lparr>preset_id = uuid, preset_name = form_newPresetName fs, preset_model = form_model fs,
            preset_systemPrompt = form_systemPrompt fs, preset_temperature = form_temperature fs,
            preset_maxTokens = form_maxTokens fs\<rparr>],
           form_newPresetName := '''', form_activePreset := Some uuid\<rparr> \<and>
      snd (saveCurrentAsPreset Jp uuid (fs, ls)) ''promptPresets'' =
        Some (stringify Jp (form_presets (fst (saveCurrentAsPreset Jp uuid (fs, ls))))) \<and>
      form_presets (fst (mountPromptForm Jp (snd (saveCurrentAsPreset Jp uuid (fs, ls))))) =
        form_presets fs @
          [\<lparr>preset_id = uuid, preset_name = form_newPresetName fs, preset_model = form_model fs,
            preset_systemPrompt = form_systemPrompt fs, preset_temperature = form_temperature fs,
            preset_maxTokens = form_maxTokens fs\<rparr>] \<and>
      (distinct (map preset_id
           (form_presets (fst (mountPromptForm Jp (snd (saveCurrentAsPreset Jp uuid (fs, ls)))))))
       \<longleftrightarrow> distinct (map preset_id (form_presets fs)) \<and> uuid \<notin> preset_id ` set (form_presets fs)))"
proof (intro conjI impI)
  let ?new = "\<lparr>ep_id = uuid, ep_originalPrompt = enh_basePrompt st,
         ep_enhancedPrompt = enh_enhancedPrompt st, ep_systemPrompt = ENHANCEMENT_SYSTEM_PROMPT,
         ep_category = enh_selectedCategory st, ep_createdAt = now, ep_favorite = False\<rparr>"
  assume a: "\<not> isFalsy (enh_enhancedPrompt st) \<and> roundTrips J (enh_savedPrompts st @ [?new])"
  then have run: "saveEnhancedPrompt J uuid now (st, ls) =
      (st\<lparr>enh_savedPrompts := enh_savedPrompts st @ [?new]\<rparr>,
       ls(''enhancedPrompts'' \<mapsto> stringify J (enh_savedPrompts st @ [?new])))"
    by (simp add: saveEnhancedPrompt_def saveToLocalStorage_def Let_def)
  show "fst (saveEnhancedPrompt J uuid now (st, ls)) =
      st\<lparr>enh_savedPrompts := enh_savedPrompts st @ [?new]\<rparr>"
    by (simp add: run)
  show "snd (saveEnhancedPrompt J uuid now (st, ls)) ''enhancedPrompts'' =
        Some (stringify J (enh_savedPrompts (fst (saveEnhancedPrompt J uuid now (st, ls)))))"
    by (simp add: run)
  from a have rt: "roundTrips J (enh_savedPrompts st @ [?new])" by simp
  have m: "mountEnhancer J (snd (saveEnhancedPrompt J uuid now (st, ls))) =
      (initialEnhancer\<lparr>enh_savedPrompts := enh_savedPrompts st @ [?new]\<rparr>, [])"
    unfolding run by (subst mountEnhancer_roundTrips [OF rt]) simp_all
  show "enh_savedPrompts (fst (mountEnhancer J (snd (saveEnhancedPrompt J uuid now (st, ls))))) =
        enh_savedPrompts st @ [?new]"
    by (simp add: m)
  show "distinct (map ep_id
           (enh_savedPrompts (fst (mountEnhancer J (snd (saveEnhancedPrompt J uuid now (st, ls)))))))
       \<longleftrightarrow> distinct (map ep_id (enh_savedPrompts st)) \<and> uuid \<notin> ep_id ` set (enh_savedPrompts st)"
    by (simp add: m)
next
  let ?new = "\<lparr>preset_id = uuid, preset_name = form_newPresetName fs, preset_model = form_model fs,
            preset_systemPrompt = form_systemPrompt fs, preset_temperature = form_temperature fs,
            preset_maxTokens = form_maxTokens fs\<rparr>"
  assume a: "trim (form_newPresetName fs) \<noteq> [] \<and> roundTrips Jp (form_presets fs @ [?new])"
  then have run: "saveCurrentAsPreset Jp uuid (fs, ls) =
      (fs\<lparr>form_presets := form_presets fs @ [?new], form_newPresetName := '''',
           form_activePreset := Some uuid\<rparr>,
       ls(''promptPresets'' \<mapsto> stringify Jp (form_presets fs @ [?new])))"
    by (simp add: saveCurrentAsPreset_def persistPresets_def Let_def)
  show "fst (saveCurrentAsPreset Jp uuid (fs, ls)) =
      fs\<lparr>form_presets := form_presets fs @ [?new], form_newPresetName := '''',
           form_activePreset := Some uuid\<rparr>"
    by (simp add: run)
  show "snd (saveCurrentAsPreset Jp uuid (fs, ls)) ''promptPresets'' =
        Some (stringify Jp (form_presets (fst (saveCurrentAsPreset Jp uuid (fs, ls)))))"
    by (simp add: run)
  from a have rt: "roundTrips Jp (form_presets fs @ [?new])" by simp
  have m: "fst (mountPromptForm Jp (snd (saveCurrentAsPreset Jp uuid (fs, ls)))) =
      initialForm\<lparr>form_presets := form_presets fs @ [?new]\<rparr>"
    unfolding run by (subst mountPromptForm_roundTrips [OF rt]) simp_all
  show "form_presets (fst (mountPromptForm Jp (snd (saveCurrentAsPreset Jp uuid (fs, ls))))) =
        form_presets fs @ [?new]"
    by (simp add: m)
  show "distinct (map preset_id
           (form_presets (fst (mountPromptForm Jp (snd (saveCurrentAsPreset Jp uuid (fs, ls)))))))
       \<longleftrightarrow> distinct (map preset_id (form_presets fs)) \<and> uuid \<notin> preset_id ` set (form_presets fs)"
    by (simp add: m)
qed

text \<open>Saving into the empty library and after the seed presets: the new id is fresh.\<close>

theorem add_appends_and_survives_restart_witness:
  "\<not> isFalsy (enh_enhancedPrompt sampleEnhancer) \<and>
   roundTrips (tableJson [(''[a]'', [samplePrompt ''u1'' ''General'' 1000])])
     [samplePrompt ''u1'' ''General'' 1000] \<and>
   enh_savedPrompts (fst (mountEnhancer (tableJson [(''[a]'', [samplePrompt ''u1'' ''General'' 1000])])
     (snd (saveEnhancedPrompt (tableJson [(''[a]'', [samplePrompt ''u1'' ''General'' 1000])])
        ''u1'' 1000 (sampleEnhancer, Map.empty)))))
     = [samplePrompt ''u1'' ''General'' 1000] \<and>
   trim (form_newPresetName sampleForm) \<noteq> [] \<and>
   roundTrips (tableJson [(''[b]'', DEFAULT_PRESETS @ [samplePreset ''u1''])])
     (DEFAULT_PRESETS @ [samplePreset ''u1'']) \<and>
   form_presets (fst (mountPromptForm (tableJson [(''[b]'', DEFAULT_PRESETS @ [samplePreset ''u1''])])
     (snd (saveCurrentAsPreset (tableJson [(''[b]'', DEFAULT_PRESETS @ [samplePreset ''u1''])])
        ''u1'' (sampleForm, Map.empty)))))
     = DEFAULT_PRESETS @ [samplePreset ''u1''] \<and>
   distinct (map preset_id (DEFAULT_PRESETS @ [samplePreset ''u1'']))"
  using add_appends_and_survives_restart
    [of sampleEnhancer "tableJson [(''[a]'', [samplePrompt ''u1'' ''General'' 1000])]" "''u1''" 1000
        Map.empty sampleForm "tableJson [(''[b]'', DEFAULT_PRESETS @ [samplePreset ''u1''])]"]
  by (simp add: table_eval sampleEnhancer_def sampleForm_def samplePrompt_def samplePreset_def
      initialEnhancer_def initialForm_def isFalsy_def trim_def isWhiteSpace_def DEFAULT_PRESETS_def)

text \<open>
  Claim C7 as stated fails where the generator returns an id that the collection already
  holds: \<open>saveEnhancedPrompt\<close> and \<open>saveCurrentAsPreset\<close> append the record all the same,
  there is content to save, and after the restart two records share the id.
\<close>

theorem add_id_collision_counterexample:
  "\<not> isFalsy (enh_enhancedPrompt sampleEnhancer) \<and>
   roundTrips
     (tableJson [(''[a,b]'', [samplePrompt ''3b241101-e2bb-4255-8caf-4136c566a962'' ''General'' 1,
                              samplePrompt ''3b241101-e2bb-4255-8caf-4136c566a962'' ''General'' 1000])])
     [samplePrompt ''3b241101-e2bb-4255-8caf-4136c566a962'' ''General'' 1,
      samplePrompt ''3b241101-e2bb-4255-8caf-4136c566a962'' ''General'' 1000] \<and>
   map ep_id (enh_savedPrompts (fst (mountEnhancer
     (tableJson [(''[a,b]'', [samplePrompt ''3b241101-e2bb-4255-8caf-4136c566a962'' ''General'' 1,
                              samplePrompt ''3b241101-e2bb-4255-8caf-4136c566a962'' ''General'' 1000])])
     (snd (saveEnhancedPrompt
        (tableJson [(''[a,b]'', [samplePrompt ''3b241101-e2bb-4255-8caf-4136c566a962'' ''General'' 1,
                                 samplePrompt ''3b241101-e2bb-4255-8caf-4136c566a962'' ''General'' 1000])])
        ''3b241101-e2bb-4255-8caf-4136c566a962'' 1000
        (sampleEnhancer\<lparr>enh_savedPrompts :=
            [samplePrompt ''3b241101-e2bb-4255-8caf-4136c566a962'' ''General'' 1]\<rparr>, Map.empty))))))
     = [''3b241101-e2bb-4255-8caf-4136c566a962'', ''3b241101-e2bb-4255-8caf-4136c566a962''] \<and>
   trim (form_newPresetName sampleForm) \<noteq> [] \<and>
   map preset_id (form_presets (fst (saveCurrentAsPreset (tableJson [])
        ''3b241101-e2bb-4255-8caf-4136c566a962''
        (sampleForm\<lparr>form_presets := [samplePreset ''3b241101-e2bb-4255-8caf-4136c566a962'']\<rparr>,
         Map.empty))))
     = [''3b241101-e2bb-4255-8caf-4136c566a962'', ''3b241101-e2bb-4255-8caf-4136c566a962'']"
  by (simp add: table_eval sampleEnhancer_def sampleForm_def samplePrompt_def samplePreset_def
      initialEnhancer_def initialForm_def isFalsy_def trim_def isWhiteSpace_def
      saveEnhancedPrompt_def saveToLocalStorage_def saveCurrentAsPreset_def persistPresets_def
      mountEnhancer_def loadEnhancedPrompts_def Let_def)

text \<open>
  Claim C8. After \<open>remove(id)\<close>, the collection and what a restart loads (given that the
  platform reads the written text back) are the records of the other ids in their
  original order, so no record has that id; when no record had the id, the collection is
  unchanged.
\<close>

theorem remove_then_load:
  "(roundTrips J (filter (\<lambda>p. ep_id p \<noteq> i) (enh_savedPrompts st)) \<longrightarrow>
      enh_savedPrompts (fst (deletePrompt J i (st, ls))) =
        filter (\<lambda>p. ep_id p \<noteq> i) (enh_savedPrompts st) \<and>
      enh_savedPrompts (fst (mountEnhancer J (snd (deletePrompt J i (st, ls))))) =
        filter (\<lambda>p. ep_id p \<noteq> i) (enh_savedPrompts st) \<and>
      i \<notin> ep_id ` set (enh_savedPrompts (fst (mountEnhancer J (snd (deletePrompt J i (st, ls)))))) \<and>
      (i \<notin> ep_id ` set (enh_savedPrompts st) \<longrightarrow>
         fst (deletePrompt J i (st, ls)) = st \<and>
         enh_savedPrompts (fst (mountEnhancer J (snd (deletePrompt J i (st, ls))))) =
           enh_savedPrompts st))
   \<and> (roundTrips Jp (filter (\<lambda>p. preset_id p \<noteq> i) (form_presets fs)) \<longrightarrow>
      form_presets (fst (deletePreset Jp i (fs, ls))) =
        filter (\<lambda>p. preset_id p \<noteq> i) (form_presets fs) \<and>
      form_presets (fst (mountPromptForm Jp (snd (deletePreset Jp i (fs, ls))))) =
        filter (\<lambda>p. preset_id p \<noteq> i) (form_presets fs) \<and>
      i \<notin> preset_id ` set (form_presets (fst (mountPromptForm Jp (snd (deletePreset Jp i (fs, ls)))))) \<and>
      (i \<notin> preset_id ` set (form_presets fs) \<longrightarrow>
         form_presets (fst (deletePreset Jp i (fs, ls))) = form_presets fs \<and>
         form_presets (fst (mountPromptForm Jp (snd (deletePreset Jp i (fs, ls))))) =
           form_presets fs))"
proof (intro conjI impI)
  assume rt: "roundTrips J (filter (\<lambda>p. ep_id p \<noteq> i) (enh_savedPrompts st))"
  have run: "deletePrompt J i (st, ls) =
      (st\<lparr>enh_savedPrompts := filter (\<lambda>p. ep_id p \<noteq> i) (enh_savedPrompts st)\<rparr>,
       ls(''enhancedPrompts'' \<mapsto> stringify J (filter (\<lambda>p. ep_id p \<noteq> i) (enh_savedPrompts st))))"
    by (simp add: deletePrompt_def saveToLocalStorage_def Let_def)
  have m: "mountEnhancer J (snd (deletePrompt J i (st, ls))) =
      (initialEnhancer\<lparr>enh_savedPrompts := filter (\<lambda>p. ep_id p \<noteq> i) (enh_savedPrompts st)\<rparr>, [])"
    unfolding run by (subst mountEnhancer_roundTrips [OF rt]) simp_all
  show "enh_savedPrompts (fst (deletePrompt J i (st, ls))) =
        filter (\<lambda>p. ep_id p \<noteq> i) (enh_savedPrompts st)"
    by (simp add: run)
  show "enh_savedPrompts (fst (mountEnhancer J (snd (deletePrompt J i (st, ls))))) =
        filter (\<lambda>p. ep_id p \<noteq> i) (enh_savedPrompts st)"
    by (simp add: m)
  show "i \<notin> ep_id ` set (enh_savedPrompts (fst (mountEnhancer J (snd (deletePrompt J i (st, ls))))))"
    by (auto simp: m)
  assume absent: "i \<notin> ep_id ` set (enh_savedPrompts st)"
  then have same: "filter (\<lambda>p. ep_id p \<noteq> i) (enh_savedPrompts st) = enh_savedPrompts st"
    by (auto simp: filter_id_conv)
  show "fst (deletePrompt J i (st, ls)) = st"
    by (simp add: run same)
  show "enh_savedPrompts (fst (mountEnhancer J (snd (deletePrompt J i (st, ls))))) = enh_savedPrompts st"
    by (simp add: m same)
next
  assume rt: "roundTrips Jp (filter (\<lambda>p. preset_id p \<noteq> i) (form_presets fs))"
  have run: "deletePreset Jp i (fs, ls) =
      (fs\<lparr>form_presets := filter (\<lambda>p. preset_id p \<noteq> i) (form_presets fs),
           form_activePreset := (if form_activePreset fs = Some i then None else form_activePreset fs)\<rparr>,
       ls(''promptPresets'' \<mapsto> stringify Jp (filter (\<lambda>p. preset_id p \<noteq> i) (form_presets fs))))"
    by (simp add: deletePreset_def persistPresets_def Let_def)
  have m: "fst (mountPromptForm Jp (snd (deletePreset Jp i (fs, ls)))) =
      initialForm\<lparr>form_presets := filter (\<lambda>p. preset_id p \<noteq> i) (form_presets fs)\<rparr>"
    unfolding run by (subst mountPromptForm_roundTrips [OF rt]) simp_all
  show "form_presets (fst (deletePreset Jp i (fs, ls))) =
        filter (\<lambda>p. preset_id p \<noteq> i) (form_presets fs)"
    by (simp add: run)
  show "form_presets (fst (mountPromptForm Jp (snd (deletePreset Jp i (fs, ls))))) =
        filter (\<lambda>p. preset_id p \<noteq> i) (form_presets fs)"
    by (simp add: m)
  show "i \<notin> preset_id ` set (form_presets (fst (mountPromptForm Jp (snd (deletePreset Jp i (fs, ls))))))"
    by (auto simp: m)
  assume absent: "i \<notin> preset_id ` set (form_presets fs)"
  then have same: "filter (\<lambda>p. preset_id p \<noteq> i) (form_presets fs) = form_presets fs"
    by (auto simp: filter_id_conv)
  show "form_presets (fst (deletePreset Jp i (fs, ls))) = form_presets fs"
    by (simp add: run same)
  show "form_presets (fst (mountPromptForm Jp (snd (deletePreset Jp i (fs, ls))))) = form_presets fs"
    by (simp add: m same)
qed

text \<open>Removing the first of two records from either collection.\<close>

theorem remove_then_load_witness:
  "roundTrips (tableJson [(''[b]'', [samplePrompt ''b'' ''Coding'' 2])])
     (filter (\<lambda>p. ep_id p \<noteq> ''a'')
        (enh_savedPrompts (initialEnhancer\<lparr>enh_savedPrompts :=
           [samplePrompt ''a'' ''General'' 1, samplePrompt ''b'' ''Coding'' 2]\<rparr>))) \<and>
   enh_savedPrompts (fst (mountEnhancer (tableJson [(''[b]'', [samplePrompt ''b'' ''Coding'' 2])])
     (snd (deletePrompt (tableJson [(''[b]'', [samplePrompt ''b'' ''Coding'' 2])]) ''a''
        (initialEnhancer\<lparr>enh_savedPrompts :=
           [samplePrompt ''a'' ''General'' 1, samplePrompt ''b'' ''Coding'' 2]\<rparr>, Map.empty)))))
     = [samplePrompt ''b'' ''Coding'' 2] \<and>
   roundTrips (tableJson [(''[c]'', [samplePreset ''c''])])
     (filter (\<lambda>p. preset_id p \<noteq> ''a'')
        (form_presets (initialForm\<lparr>form_presets := [samplePreset ''a'', samplePreset ''c'']\<rparr>))) \<and>
   form_presets (fst (mountPromptForm (tableJson [(''[c]'', [samplePreset ''c''])])
     (snd (deletePreset (tableJson [(''[c]'', [samplePreset ''c''])]) ''a''
        (initialForm\<lparr>form_presets := [samplePreset ''a'', samplePreset ''c'']\<rparr>, Map.empty)))))
     = [samplePreset ''c'']"
  using remove_then_load
    [of "tableJson [(''[b]'', [samplePrompt ''b'' ''Coding'' 2])]" "''a''"
        "initialEnhancer\<lparr>enh_savedPrompts :=
           [samplePrompt ''a'' ''General'' 1, samplePrompt ''b'' ''Coding'' 2]\<rparr>"
        Map.empty
        "tableJson [(''[c]'', [samplePreset ''c''])]"
        "initialForm\<lparr>form_presets := [samplePreset ''a'', samplePreset ''c'']\<rparr>"]
  by (simp add: table_eval samplePrompt_def samplePreset_def)

text \<open>
  Claim C10. Toggling the favourite flag for an id changes nothing of the state but the
  library, keeps its length and order, replaces each record of that id by the same record
  with \<open>favorite\<close> negated, every other field as it was, and leaves every other record as
  it is; when no record has the id, the state is unchanged. The library is written to the
  storage.
\<close>

theorem toggleFavorite_frame:
  "fst (toggleFavorite J i (st, ls)) =
     st\<lparr>enh_savedPrompts := enh_savedPrompts (fst (toggleFavorite J i (st, ls)))\<rparr>
   \<and> length (enh_savedPrompts (fst (toggleFavorite J i (st, ls)))) = length (enh_savedPrompts st)
   \<and> (\<forall>k < length (enh_savedPrompts st).
        enh_savedPrompts (fst (toggleFavorite J i (st, ls))) ! k =
          (if ep_id (enh_savedPrompts st ! k) = i
           then (enh_savedPrompts st ! k)\<lparr>ep_favorite := \<not> ep_favorite (enh_savedPrompts st ! k)\<rparr>
           else enh_savedPrompts st ! k))
   \<and> (\<forall>k < length (enh_savedPrompts st).
        ep_id (enh_savedPrompts (fst (toggleFavorite J i (st, ls))) ! k) = ep_id (enh_savedPrompts st ! k) \<and>
        ep_originalPrompt (enh_savedPrompts (fst (toggleFavorite J i (st, ls))) ! k) =
          ep_originalPrompt (enh_savedPrompts st ! k) \<and>
        ep_enhancedPrompt (enh_savedPrompts (fst (toggleFavorite J i (st, ls))) ! k) =
          ep_enhancedPrompt (enh_savedPrompts st ! k) \<and>
        ep_systemPrompt (enh_savedPrompts (fst (toggleFavorite J i (st, ls))) ! k) =
          ep_systemPrompt (enh_savedPrompts st ! k) \<and>
        ep_category (enh_savedPrompts (fst (toggleFavorite J i (st, ls))) ! k) =
          ep_category (enh_savedPrompts st ! k) \<and>
        ep_createdAt (enh_savedPrompts (fst (toggleFavorite J i (st, ls))) ! k) =
          ep_createdAt (enh_savedPrompts st ! k) \<and>
        ep_favorite (enh_savedPrompts (fst (toggleFavorite J i (st, ls))) ! k) =
          (if ep_id (enh_savedPrompts st ! k) = i then \<not> ep_favorite (enh_savedPrompts st ! k)
           else ep_favorite (enh_savedPrompts st ! k)))
   \<and> (i \<notin> ep_id ` set (enh_savedPrompts st) \<longrightarrow> fst (toggleFavorite J i (st, ls)) = st)
   \<and> snd (toggleFavorite J i (st, ls)) =
       ls(''enhancedPrompts'' \<mapsto> stringify J (enh_savedPrompts (fst (toggleFavorite J i (st, ls)))))"
proof -
  let ?f = "\<lambda>p. if ep_id p = i then p\<lparr>ep_favorite := \<not> ep_favorite p\<rparr> else p"
  have run: "toggleFavorite J i (st, ls) =
      (st\<lparr>enh_savedPrompts := map ?f (enh_savedPrompts st)\<rparr>,
       ls(''enhancedPrompts'' \<mapsto> stringify J (map ?f (enh_savedPrompts st))))"
    by (simp add: toggleFavorite_def saveToLocalStorage_def Let_def)
  have absent: "i \<notin> ep_id ` set (enh_savedPrompts st) \<Longrightarrow> map ?f (enh_savedPrompts st) = enh_savedPrompts st"
    by (rule map_idI) auto
  show ?thesis
    by (simp add: run absent)
qed

text \<open>Toggling the first of two records.\<close>

theorem toggleFavorite_frame_witness:
  "(0::nat) < length (enh_savedPrompts (initialEnhancer\<lparr>enh_savedPrompts :=
       [samplePrompt ''a'' ''General'' 1, samplePrompt ''b'' ''Coding'' 2]\<rparr>)) \<and>
   enh_savedPrompts (fst (toggleFavorite (tableJson []) ''a''
       (initialEnhancer\<lparr>enh_savedPrompts :=
          [samplePrompt ''a'' ''General'' 1, samplePrompt ''b'' ''Coding'' 2]\<rparr>, Map.empty))) ! 0
     = (samplePrompt ''a'' ''General'' 1)\<lparr>ep_favorite := True\<rparr>"
proof -
  let ?st = "initialEnhancer\<lparr>enh_savedPrompts :=
          [samplePrompt ''a'' ''General'' 1, samplePrompt ''b'' ''Coding'' 2]\<rparr>"
  have len: "(0::nat) < length (enh_savedPrompts ?st)" by simp
  note frame = toggleFavorite_frame [of "tableJson []" "''a''" ?st Map.empty]
  from frame have "\<forall>k < length (enh_savedPrompts ?st).
        enh_savedPrompts (fst (toggleFavorite (tableJson []) ''a'' (?st, Map.empty))) ! k =
          (if ep_id (enh_savedPrompts ?st ! k) = ''a''
           then (enh_savedPrompts ?st ! k)\<lparr>ep_favorite := \<not> ep_favorite (enh_savedPrompts ?st ! k)\<rparr>
           else enh_savedPrompts ?st ! k)"
    by (elim conjE)
  with len have "enh_savedPrompts (fst (toggleFavorite (tableJson []) ''a'' (?st, Map.empty))) ! 0 =
          (if ep_id (enh_savedPrompts ?st ! 0) = ''a''
           then (enh_savedPrompts ?st ! 0)\<lparr>ep_favorite := \<not> ep_favorite (enh_savedPrompts ?st ! 0)\<rparr>
           else enh_savedPrompts ?st ! 0)"
    by blast
  then have "enh_savedPrompts (fst (toggleFavorite (tableJson []) ''a'' (?st, Map.empty))) ! 0
     = (samplePrompt ''a'' ''General'' 1)\<lparr>ep_favorite := True\<rparr>"
    by (simp add: samplePrompt_def)
  with len show ?thesis by (intro conjI)
qed

end
